theory Spec2Isabelle
  imports Complex_Main "HOL-Library.Sublist"
begin

section \<open>Numbers and strings of the source language\<close>

text \<open>
  The source is TypeScript. In the sections on the hard filters, on the blocks of
  \<^verbatim>\<open>scoreProperty\<close> and on the controller, a \<^verbatim>\<open>number\<close> is a \<^typ>\<open>real\<close>: the
  comparisons and the structure of the computation are those of the source, the
  arithmetic is exact, and the non-finite values (NaN, the infinities) are not values of
  that model. The theorems stated there are about which listings pass, which blocks run,
  which entries they push, which weights they count and which response is sent; none of
  them rests on how a quotient is rounded. The runtime computes on IEEE 754 doubles; the
  section on scoring over the arithmetic of the runtime takes that arithmetic as a
  parameter.

  An optional or nullable field (\<^verbatim>\<open>undefined\<close>, \<^verbatim>\<open>null\<close>) is an \<^typ>\<open>'a option\<close>; the
  source treats \<^verbatim>\<open>null\<close> and \<^verbatim>\<open>undefined\<close> alike wherever it tests a listing field.

  Strings are \<^typ>\<open>string\<close>. \<^verbatim>\<open>String.prototype.toLowerCase\<close> is modelled on the ASCII
  letters (every other character is kept), \<^verbatim>\<open>String.prototype.includes\<close> is the
  contiguous-substring test, and the truthiness of an optional string in a condition
  (\<^verbatim>\<open>mustHave.location && ...\<close>) is "defined and not empty". The general
  theorems use of the lower-casing only that the empty string is mapped to itself; it is
  unfolded further only to evaluate it on ASCII strings.
\<close>

definition lowerChar :: "char \<Rightarrow> char" where
  "lowerChar c =
     (case map_of (zip ''ABCDEFGHIJKLMNOPQRSTUVWXYZ'' ''abcdefghijklmnopqrstuvwxyz'') c of
        Some d \<Rightarrow> d
      | None \<Rightarrow> c)"

definition toLowerCase :: "string \<Rightarrow> string" where
  "toLowerCase s = map lowerChar s"

definition str_includes :: "string \<Rightarrow> string \<Rightarrow> bool" where
  "str_includes s t = sublist t s"

fun truthy :: "string option \<Rightarrow> bool" where
  "truthy None = False"
| "truthy (Some s) = (s \<noteq> [])"

text \<open>\<^verbatim>\<open>Math.round\<close> rounds to the nearest integer, a half towards plus infinity.\<close>

definition Math_round :: "real \<Rightarrow> real" where
  "Math_round x = of_int \<lfloor>x + 1 / 2\<rfloor>"

definition Math_trunc :: "real \<Rightarrow> real" where
  "Math_trunc x = (if 0 \<le> x then of_int \<lfloor>x\<rfloor> else of_int \<lceil>x\<rceil>)"

definition Math_ceil :: "real \<Rightarrow> real" where
  "Math_ceil x = of_int \<lceil>x\<rceil>"

text \<open>\<^verbatim>\<open>Math.atan2(y, x)\<close> on finite arguments: the angle of the point \<open>(x, y)\<close>, in
  \<open>(-pi, pi]\<close>, and 0 at the origin.\<close>

definition Math_atan2 :: "real \<Rightarrow> real \<Rightarrow> real" where
  "Math_atan2 y x =
     (if 0 < x then arctan (y / x)
      else if x < 0 then (if 0 \<le> y then arctan (y / x) + pi else arctan (y / x) - pi)
      else if 0 < y then pi / 2
      else if y < 0 then - (pi / 2)
      else 0)"

section \<open>Data model (src/utils/recommendation.ts)\<close>

record RecommendationMustHave =
  mh_location :: "string option"
  mh_categoryId :: "real option"
  mh_minPrice :: "real option"
  mh_maxPrice :: "real option"
  mh_minRoi :: "real option"
  mh_minArea :: "real option"
  mh_maxDistanceFromHighway :: "real option"
  mh_status :: "string option"

record RecommendationPreferences =
  pf_location :: "string option"
  pf_latitude :: "real option"
  pf_longitude :: "real option"
  pf_locationRadiusKm :: "real option"
  pf_budget :: "real option"
  pf_roiPercent :: "real option"
  pf_areaSqft :: "real option"
  pf_maxDistanceFromHighway :: "real option"

record RecommendationProperty =
  p_id :: "real option"
  p_title :: string
  p_location :: string
  p_categoryId :: real
  p_status :: string
  p_latitude :: "real option"
  p_longitude :: "real option"
  p_priceNpr :: "real option"
  p_roiPercent :: "real option"
  p_areaSqft :: "real option"
  p_distanceFromHighway :: "real option"

section \<open>Hard filters: \<^verbatim>\<open>applyHardFilters\<close>\<close>

text \<open>
  The callback of \<^verbatim>\<open>properties.filter\<close> is a sequence of guarded blocks, each of which
  may \<^verbatim>\<open>return false\<close>; the callback returns \<^verbatim>\<open>true\<close> when none did. Each block is one
  definition below, true when the block returns \<^verbatim>\<open>false\<close>.
\<close>

definition rejectsLocation :: "RecommendationMustHave \<Rightarrow> RecommendationProperty \<Rightarrow> bool" where
  "rejectsLocation mustHave property =
     (truthy (mh_location mustHave) \<and>
      \<not> str_includes (toLowerCase (p_location property)) (toLowerCase (the (mh_location mustHave))))"

definition rejectsCategoryId :: "RecommendationMustHave \<Rightarrow> RecommendationProperty \<Rightarrow> bool" where
  "rejectsCategoryId mustHave property =
     (mh_categoryId mustHave \<noteq> None \<and> p_categoryId property \<noteq> the (mh_categoryId mustHave))"

definition rejectsStatus :: "RecommendationMustHave \<Rightarrow> RecommendationProperty \<Rightarrow> bool" where
  "rejectsStatus mustHave property =
     (truthy (mh_status mustHave) \<and>
      toLowerCase (p_status property) \<noteq> toLowerCase (the (mh_status mustHave)))"

definition rejectsMinPrice :: "RecommendationMustHave \<Rightarrow> RecommendationProperty \<Rightarrow> bool" where
  "rejectsMinPrice mustHave property =
     (case mh_minPrice mustHave of
        None \<Rightarrow> False
      | Some minPrice \<Rightarrow>
          (case p_priceNpr property of
             None \<Rightarrow> True
           | Some priceNpr \<Rightarrow> priceNpr < minPrice))"

definition rejectsMaxPrice :: "RecommendationMustHave \<Rightarrow> RecommendationProperty \<Rightarrow> bool" where
  "rejectsMaxPrice mustHave property =
     (case mh_maxPrice mustHave of
        None \<Rightarrow> False
      | Some maxPrice \<Rightarrow>
          (case p_priceNpr property of
             None \<Rightarrow> True
           | Some priceNpr \<Rightarrow> priceNpr > maxPrice))"

definition rejectsMinRoi :: "RecommendationMustHave \<Rightarrow> RecommendationProperty \<Rightarrow> bool" where
  "rejectsMinRoi mustHave property =
     (case mh_minRoi mustHave of
        None \<Rightarrow> False
      | Some minRoi \<Rightarrow>
          (case p_roiPercent property of
             None \<Rightarrow> True
           | Some roiPercent \<Rightarrow> roiPercent < minRoi))"

definition rejectsMinArea :: "RecommendationMustHave \<Rightarrow> RecommendationProperty \<Rightarrow> bool" where
  "rejectsMinArea mustHave property =
     (case mh_minArea mustHave of
        None \<Rightarrow> False
      | Some minArea \<Rightarrow>
          (case p_areaSqft property of
             None \<Rightarrow> True
           | Some areaSqft \<Rightarrow> areaSqft < minArea))"

definition rejectsMaxDistance :: "RecommendationMustHave \<Rightarrow> RecommendationProperty \<Rightarrow> bool" where
  "rejectsMaxDistance mustHave property =
     (case mh_maxDistanceFromHighway mustHave of
        None \<Rightarrow> False
      | Some maxDistance \<Rightarrow>
          (case p_distanceFromHighway property of
             None \<Rightarrow> True
           | Some distanceFromHighway \<Rightarrow> distanceFromHighway > maxDistance))"

definition hardFilterCallback :: "RecommendationMustHave \<Rightarrow> RecommendationProperty \<Rightarrow> bool" where
  "hardFilterCallback mustHave property =
     (if rejectsLocation mustHave property then False
      else if rejectsCategoryId mustHave property then False
      else if rejectsStatus mustHave property then False
      else if rejectsMinPrice mustHave property then False
      else if rejectsMaxPrice mustHave property then False
      else if rejectsMinRoi mustHave property then False
      else if rejectsMinArea mustHave property then False
      else if rejectsMaxDistance mustHave property then False
      else True)"

definition applyHardFilters ::
  "RecommendationProperty list \<Rightarrow> RecommendationMustHave \<Rightarrow> RecommendationProperty list" where
  "applyHardFilters properties mustHave = filter (hardFilterCallback mustHave) properties"

subsection \<open>The per-listing predicate in the words of the specification\<close>

text \<open>
  One definition per constraint of the specification's hard-filter stage: an absent
  constraint field imposes no restriction, a present one must be met by the listing.
\<close>

definition locationConstraint :: "RecommendationMustHave \<Rightarrow> RecommendationProperty \<Rightarrow> bool" where
  "locationConstraint M L =
     (case mh_location M of
        None \<Rightarrow> True
      | Some loc \<Rightarrow> sublist (toLowerCase loc) (toLowerCase (p_location L)))"

definition categoryConstraint :: "RecommendationMustHave \<Rightarrow> RecommendationProperty \<Rightarrow> bool" where
  "categoryConstraint M L =
     (case mh_categoryId M of None \<Rightarrow> True | Some c \<Rightarrow> p_categoryId L = c)"


definition lowerBound :: "real option \<Rightarrow> real option \<Rightarrow> bool" where
  "lowerBound bound v =
     (case bound of
        None \<Rightarrow> True
      | Some lo \<Rightarrow> (case v of None \<Rightarrow> False | Some x \<Rightarrow> lo \<le> x))"

definition upperBound :: "real option \<Rightarrow> real option \<Rightarrow> bool" where
  "upperBound bound v =
     (case bound of
        None \<Rightarrow> True
      | Some hi \<Rightarrow> (case v of None \<Rightarrow> False | Some x \<Rightarrow> x \<le> hi))"

definition numericConstraints :: "RecommendationMustHave \<Rightarrow> RecommendationProperty \<Rightarrow> bool" where
  "numericConstraints M L =
     (lowerBound (mh_minPrice M) (p_priceNpr L) \<and>
      upperBound (mh_maxPrice M) (p_priceNpr L) \<and>
      lowerBound (mh_minRoi M) (p_roiPercent L) \<and>
      lowerBound (mh_minArea M) (p_areaSqft L) \<and>
      upperBound (mh_maxDistanceFromHighway M) (p_distanceFromHighway L))"


text \<open>The same predicate with the status constraint active only for a non-empty status.\<close>

definition statusConstraintNonEmpty ::
  "RecommendationMustHave \<Rightarrow> RecommendationProperty \<Rightarrow> bool" where
  "statusConstraintNonEmpty M L =
     (case mh_status M of
        None \<Rightarrow> True
      | Some s \<Rightarrow> s = [] \<or> toLowerCase (p_status L) = toLowerCase s)"

definition satisfiesMustHave :: "RecommendationMustHave \<Rightarrow> RecommendationProperty \<Rightarrow> bool" where
  "satisfiesMustHave M L =
     (locationConstraint M L \<and> categoryConstraint M L \<and> statusConstraintNonEmpty M L \<and>
      numericConstraints M L)"

text \<open>Concrete values used to evaluate the definitions.\<close>

definition noMustHave :: RecommendationMustHave where
  "noMustHave =
     \<lparr>mh_location = None, mh_categoryId = None, mh_minPrice = None, mh_maxPrice = None,
      mh_minRoi = None, mh_minArea = None, mh_maxDistanceFromHighway = None,
      mh_status = None\<rparr>"

definition noPreferences :: RecommendationPreferences where
  "noPreferences =
     \<lparr>pf_location = None, pf_latitude = None, pf_longitude = None,
      pf_locationRadiusKm = None, pf_budget = None, pf_roiPercent = None,
      pf_areaSqft = None, pf_maxDistanceFromHighway = None\<rparr>"

definition sampleListing :: RecommendationProperty where
  "sampleListing =
     \<lparr>p_id = Some 1, p_title = ''Plot'', p_location = ''Kathmandu'', p_categoryId = 2,
      p_status = ''Available'', p_latitude = None, p_longitude = None,
      p_priceNpr = Some 5000000, p_roiPercent = None, p_areaSqft = Some 1200,
      p_distanceFromHighway = Some 500\<rparr>"

section \<open>Scoring: \<^verbatim>\<open>scoreProperty\<close>\<close>

definition WEIGHTS_location :: real where "WEIGHTS_location = 25"
definition WEIGHTS_price :: real where "WEIGHTS_price = 30"
definition WEIGHTS_roi :: real where "WEIGHTS_roi = 15"
definition WEIGHTS_area :: real where "WEIGHTS_area = 15"
definition WEIGHTS_distance :: real where "WEIGHTS_distance = 15"

definition round2 :: "real \<Rightarrow> real" where
  "round2 v = Math_round (v * 100) / 100"

definition safeRatioScore :: "real \<Rightarrow> real \<Rightarrow> real" where
  "safeRatioScore weight deltaRatio = (let score = weight * max 0 (1 - deltaRatio) in round2 score)"

definition toRad :: "real \<Rightarrow> real" where
  "toRad deg = (deg * pi) / 180"

text \<open>\<^verbatim>\<open>haversineKm\<close>; its constant \<^verbatim>\<open>a\<close> is a definition of its own.\<close>

definition haversineA :: "real \<Rightarrow> real \<Rightarrow> real \<Rightarrow> real \<Rightarrow> real" where
  "haversineA lat1 lng1 lat2 lng2 =
     (let dLat = toRad (lat2 - lat1);
          dLng = toRad (lng2 - lng1)
      in sin (dLat / 2) * sin (dLat / 2) +
         cos (toRad lat1) * cos (toRad lat2) * sin (dLng / 2) * sin (dLng / 2))"

definition haversineKm :: "real \<Rightarrow> real \<Rightarrow> real \<Rightarrow> real \<Rightarrow> real" where
  "haversineKm lat1 lng1 lat2 lng2 =
     (let earthRadiusKm = 6371;
          a = haversineA lat1 lng1 lat2 lng2;
          c = 2 * Math_atan2 (sqrt a) (sqrt (1 - a))
      in earthRadiusKm * c)"

text \<open>
  The reason of an explanation entry is a template string in the source. Each template
  is a constructor here, carrying the values the template interpolates:
  \<^item> \<open>LocationScoredByDistance d r\<close>: "Location scored by distance (d km from preferred
    point, radius r km)";
  \<^item> \<open>FallbackMatched t\<close>, \<open>FallbackDidNotMatch t\<close>: "Property coordinates missing, text
    location fallback matched (t)" and "... did not match (t)";
  \<^item> \<open>CoordinatesMissing\<close>: "Property coordinates missing, could not score geo-distance";
  \<^item> \<open>LocationTextMatched t\<close>, \<open>LocationTextDidNotMatch t\<close>: "Location text matched
    preference (t)" and "Location text did not match preference (t)";
  \<^item> \<open>PriceMissing\<close>, \<open>BudgetCloseness b\<close>: "Price missing, could not score budget
    closeness" and "Budget closeness scored against NPR b";
  \<^item> \<open>RoiMissing\<close>, \<open>RoiScored r\<close>: "ROI missing, could not score ROI preference" and
    "ROI scored against preferred r%";
  \<^item> \<open>AreaMissing\<close>, \<open>AreaCloseness a\<close>: "Area missing, could not score area preference"
    and "Area closeness scored against a sq ft";
  \<^item> \<open>DistanceMissing\<close>, \<open>DistanceScored m\<close>: "Distance from highway missing, could not
    score distance preference" and "Distance scored against preferred max m m".
\<close>

datatype reason =
    LocationScoredByDistance real real
  | FallbackMatched string
  | FallbackDidNotMatch string
  | CoordinatesMissing
  | LocationTextMatched string
  | LocationTextDidNotMatch string
  | PriceMissing
  | BudgetCloseness real
  | RoiMissing
  | RoiScored real
  | AreaMissing
  | AreaCloseness real
  | DistanceMissing
  | DistanceScored real

record RecommendationExplanation =
  reason :: reason
  points :: real

record RecommendationScore =
  score :: real
  maxPossible :: real
  matchPercentage :: real
  explanation :: "RecommendationExplanation list"

text \<open>The local variables \<^verbatim>\<open>score\<close>, \<^verbatim>\<open>maxPossible\<close> and \<^verbatim>\<open>explanation\<close> of
  \<^verbatim>\<open>scoreProperty\<close>, threaded through its five blocks.\<close>

record locals =
  l_score :: real
  l_maxPossible :: real
  l_explanation :: "RecommendationExplanation list"

text \<open>What every active block does once: \<^verbatim>\<open>maxPossible += weight\<close>,
  \<^verbatim>\<open>score += points\<close> and \<^verbatim>\<open>explanation.push({ reason, points })\<close>.\<close>

definition award :: "real \<Rightarrow> reason \<Rightarrow> real \<Rightarrow> locals \<Rightarrow> locals" where
  "award weight r pts st =
     st\<lparr>l_maxPossible := l_maxPossible st + weight,
        l_score := l_score st + pts,
        l_explanation := l_explanation st @ [\<lparr>reason = r, points = pts\<rparr>]\<rparr>"

definition radiusKmOf :: "RecommendationPreferences \<Rightarrow> real" where
  "radiusKmOf preferences =
     (if pf_locationRadiusKm preferences \<noteq> None \<and> the (pf_locationRadiusKm preferences) > 0
      then the (pf_locationRadiusKm preferences)
      else 10)"

definition scoreLocation ::
  "RecommendationProperty \<Rightarrow> RecommendationPreferences \<Rightarrow> locals \<Rightarrow> locals" where
  "scoreLocation property preferences st =
     (if pf_latitude preferences \<noteq> None \<and> pf_longitude preferences \<noteq> None then
        (let radiusKm = radiusKmOf preferences in
         if p_latitude property \<noteq> None \<and> p_longitude property \<noteq> None then
           (let distanceKm =
                  haversineKm (the (pf_latitude preferences)) (the (pf_longitude preferences))
                    (the (p_latitude property)) (the (p_longitude property));
                pts = safeRatioScore WEIGHTS_location (distanceKm / radiusKm)
            in award WEIGHTS_location
                 (LocationScoredByDistance (round2 distanceKm) radiusKm) pts st)
         else if truthy (pf_location preferences) then
           (let matched =
                  str_includes (toLowerCase (p_location property))
                    (toLowerCase (the (pf_location preferences)));
                pts = (if matched then WEIGHTS_location else 0)
            in award WEIGHTS_location
                 (if matched then FallbackMatched (the (pf_location preferences))
                  else FallbackDidNotMatch (the (pf_location preferences))) pts st)
         else award WEIGHTS_location CoordinatesMissing 0 st)
      else if truthy (pf_location preferences) then
        (let matched =
               str_includes (toLowerCase (p_location property))
                 (toLowerCase (the (pf_location preferences)));
             pts = (if matched then WEIGHTS_location else 0)
         in award WEIGHTS_location
              (if matched then LocationTextMatched (the (pf_location preferences))
               else LocationTextDidNotMatch (the (pf_location preferences))) pts st)
      else st)"

definition pricePoints :: "real \<Rightarrow> real option \<Rightarrow> real" where
  "pricePoints budget price =
     (case price of
        None \<Rightarrow> 0
      | Some pr \<Rightarrow> safeRatioScore WEIGHTS_price (\<bar>pr - budget\<bar> / budget))"

definition scorePrice ::
  "RecommendationProperty \<Rightarrow> RecommendationPreferences \<Rightarrow> locals \<Rightarrow> locals" where
  "scorePrice property preferences st =
     (if pf_budget preferences \<noteq> None \<and> the (pf_budget preferences) > 0 then
        (let price = p_priceNpr property;
             pts = pricePoints (the (pf_budget preferences)) price
         in award WEIGHTS_price
              (if price = None then PriceMissing
               else BudgetCloseness (the (pf_budget preferences))) pts st)
      else st)"

definition roiPoints :: "real \<Rightarrow> real option \<Rightarrow> real" where
  "roiPoints preferred roi =
     (case roi of
        None \<Rightarrow> 0
      | Some r \<Rightarrow>
          if r \<ge> preferred then WEIGHTS_roi
          else round2 (WEIGHTS_roi * max 0 (r / preferred)))"

definition scoreRoi ::
  "RecommendationProperty \<Rightarrow> RecommendationPreferences \<Rightarrow> locals \<Rightarrow> locals" where
  "scoreRoi property preferences st =
     (if pf_roiPercent preferences \<noteq> None \<and> the (pf_roiPercent preferences) > 0 then
        (let roi = p_roiPercent property;
             pts = roiPoints (the (pf_roiPercent preferences)) roi
         in award WEIGHTS_roi
              (if roi = None then RoiMissing
               else RoiScored (the (pf_roiPercent preferences))) pts st)
      else st)"

definition areaPoints :: "real \<Rightarrow> real option \<Rightarrow> real" where
  "areaPoints preferred area =
     (case area of
        None \<Rightarrow> 0
      | Some ar \<Rightarrow> safeRatioScore WEIGHTS_area (\<bar>ar - preferred\<bar> / preferred))"

definition scoreArea ::
  "RecommendationProperty \<Rightarrow> RecommendationPreferences \<Rightarrow> locals \<Rightarrow> locals" where
  "scoreArea property preferences st =
     (if pf_areaSqft preferences \<noteq> None \<and> the (pf_areaSqft preferences) > 0 then
        (let area = p_areaSqft property;
             pts = areaPoints (the (pf_areaSqft preferences)) area
         in award WEIGHTS_area
              (if area = None then AreaMissing
               else AreaCloseness (the (pf_areaSqft preferences))) pts st)
      else st)"

definition distancePoints :: "real \<Rightarrow> real option \<Rightarrow> real" where
  "distancePoints preferred distance =
     (case distance of
        None \<Rightarrow> 0
      | Some d \<Rightarrow>
          if d \<le> preferred then WEIGHTS_distance
          else safeRatioScore WEIGHTS_distance ((d - preferred) / preferred))"

definition scoreDistance ::
  "RecommendationProperty \<Rightarrow> RecommendationPreferences \<Rightarrow> locals \<Rightarrow> locals" where
  "scoreDistance property preferences st =
     (if pf_maxDistanceFromHighway preferences \<noteq> None \<and>
         the (pf_maxDistanceFromHighway preferences) > 0 then
        (let distance = p_distanceFromHighway property;
             pts = distancePoints (the (pf_maxDistanceFromHighway preferences)) distance
         in award WEIGHTS_distance
              (if distance = None then DistanceMissing
               else DistanceScored (the (pf_maxDistanceFromHighway preferences))) pts st)
      else st)"

definition initialLocals :: locals where
  "initialLocals = \<lparr>l_score = 0, l_maxPossible = 0, l_explanation = []\<rparr>"

definition scoreBlocks ::
  "RecommendationProperty \<Rightarrow> RecommendationPreferences \<Rightarrow> locals" where
  "scoreBlocks property preferences =
     scoreDistance property preferences
       (scoreArea property preferences
         (scoreRoi property preferences
           (scorePrice property preferences
             (scoreLocation property preferences initialLocals))))"

definition scoreProperty ::
  "RecommendationProperty \<Rightarrow> RecommendationPreferences \<Rightarrow> RecommendationScore" where
  "scoreProperty property preferences =
     (let st = scoreBlocks property preferences;
          matchPercentage =
            (if l_maxPossible st = 0 then 0
             else Math_round ((l_score st / l_maxPossible st) * 100))
      in \<lparr>score = round2 (l_score st),
          maxPossible = l_maxPossible st,
          matchPercentage = matchPercentage,
          explanation = l_explanation st\<rparr>)"

section \<open>Scoring over the arithmetic of the runtime\<close>

text \<open>
  The runtime computes on IEEE 754 doubles, with NaN and the infinities, and with
  \<^verbatim>\<open>Math.sin\<close>, \<^verbatim>\<open>Math.cos\<close> and \<^verbatim>\<open>Math.atan2\<close> as the engine provides them. None of this
  is code of the repository, so in this section the arithmetic is a parameter: a record
  of the operations \<^verbatim>\<open>scoreProperty\<close> uses (\<open>js_lit\<close> is a numeric literal, \<open>js_eq\<close> is
  \<^verbatim>\<open>===\<close>). The definitions follow the source operation by operation, in the order in
  which JavaScript evaluates them, and what is proved of them holds for every arithmetic,
  that of the runtime included. Equality of numbers in a theorem is identity of values:
  NaN is the same value as NaN.
\<close>

record 'n Arithmetic =
  js_lit :: "int \<Rightarrow> 'n"
  js_PI :: 'n
  js_add :: "'n \<Rightarrow> 'n \<Rightarrow> 'n"
  js_sub :: "'n \<Rightarrow> 'n \<Rightarrow> 'n"
  js_mul :: "'n \<Rightarrow> 'n \<Rightarrow> 'n"
  js_div :: "'n \<Rightarrow> 'n \<Rightarrow> 'n"
  js_gt :: "'n \<Rightarrow> 'n \<Rightarrow> bool"
  js_ge :: "'n \<Rightarrow> 'n \<Rightarrow> bool"
  js_le :: "'n \<Rightarrow> 'n \<Rightarrow> bool"
  js_eq :: "'n \<Rightarrow> 'n \<Rightarrow> bool"
  js_abs :: "'n \<Rightarrow> 'n"
  js_max :: "'n \<Rightarrow> 'n \<Rightarrow> 'n"
  js_round :: "'n \<Rightarrow> 'n"
  js_sin :: "'n \<Rightarrow> 'n"
  js_cos :: "'n \<Rightarrow> 'n"
  js_sqrt :: "'n \<Rightarrow> 'n"
  js_atan2 :: "'n \<Rightarrow> 'n \<Rightarrow> 'n"

record 'n PreferencesN =
  pn_location :: "string option"
  pn_latitude :: "'n option"
  pn_longitude :: "'n option"
  pn_locationRadiusKm :: "'n option"
  pn_budget :: "'n option"
  pn_roiPercent :: "'n option"
  pn_areaSqft :: "'n option"
  pn_maxDistanceFromHighway :: "'n option"

record 'n PropertyN =
  ln_id :: "'n option"
  ln_title :: string
  ln_location :: string
  ln_categoryId :: 'n
  ln_status :: string
  ln_latitude :: "'n option"
  ln_longitude :: "'n option"
  ln_priceNpr :: "'n option"
  ln_roiPercent :: "'n option"
  ln_areaSqft :: "'n option"
  ln_distanceFromHighway :: "'n option"

text \<open>The reasons, the entries, the result and the local variables, as in the section on
  \<^verbatim>\<open>scoreProperty\<close> above, over the numbers of the arithmetic.\<close>

datatype 'n reasonN =
    LocationScoredByDistanceN 'n 'n
  | FallbackMatchedN string
  | FallbackDidNotMatchN string
  | CoordinatesMissingN
  | LocationTextMatchedN string
  | LocationTextDidNotMatchN string
  | PriceMissingN
  | BudgetClosenessN 'n
  | RoiMissingN
  | RoiScoredN 'n
  | AreaMissingN
  | AreaClosenessN 'n
  | DistanceMissingN
  | DistanceScoredN 'n

record 'n ExplanationN =
  reasonN :: "'n reasonN"
  pointsN :: 'n

record 'n ScoreN =
  scoreN :: 'n
  maxPossibleN :: 'n
  matchPercentageN :: 'n
  explanationN :: "'n ExplanationN list"

record 'n localsN =
  vn_score :: 'n
  vn_maxPossible :: 'n
  vn_explanation :: "'n ExplanationN list"

definition round2N :: "'n Arithmetic \<Rightarrow> 'n \<Rightarrow> 'n" where
  "round2N ar v = js_div ar (js_round ar (js_mul ar v (js_lit ar 100))) (js_lit ar 100)"

definition safeRatioScoreN :: "'n Arithmetic \<Rightarrow> 'n \<Rightarrow> 'n \<Rightarrow> 'n" where
  "safeRatioScoreN ar weight deltaRatio =
     (let score = js_mul ar weight (js_max ar (js_lit ar 0) (js_sub ar (js_lit ar 1) deltaRatio))
      in round2N ar score)"

definition toRadN :: "'n Arithmetic \<Rightarrow> 'n \<Rightarrow> 'n" where
  "toRadN ar deg = js_div ar (js_mul ar deg (js_PI ar)) (js_lit ar 180)"

definition haversineKmN :: "'n Arithmetic \<Rightarrow> 'n \<Rightarrow> 'n \<Rightarrow> 'n \<Rightarrow> 'n \<Rightarrow> 'n" where
  "haversineKmN ar lat1 lng1 lat2 lng2 =
     (let earthRadiusKm = js_lit ar 6371;
          dLat = toRadN ar (js_sub ar lat2 lat1);
          dLng = toRadN ar (js_sub ar lng2 lng1);
          a = js_add ar
                (js_mul ar (js_sin ar (js_div ar dLat (js_lit ar 2)))
                   (js_sin ar (js_div ar dLat (js_lit ar 2))))
                (js_mul ar
                   (js_mul ar
                      (js_mul ar (js_cos ar (toRadN ar lat1)) (js_cos ar (toRadN ar lat2)))
                      (js_sin ar (js_div ar dLng (js_lit ar 2))))
                   (js_sin ar (js_div ar dLng (js_lit ar 2))));
          c = js_mul ar (js_lit ar 2)
                (js_atan2 ar (js_sqrt ar a) (js_sqrt ar (js_sub ar (js_lit ar 1) a)))
      in js_mul ar earthRadiusKm c)"

definition awardN :: "'n Arithmetic \<Rightarrow> 'n \<Rightarrow> 'n reasonN \<Rightarrow> 'n \<Rightarrow> 'n localsN \<Rightarrow> 'n localsN" where
  "awardN ar weight r pts st =
     st\<lparr>vn_maxPossible := js_add ar (vn_maxPossible st) weight,
        vn_score := js_add ar (vn_score st) pts,
        vn_explanation := vn_explanation st @ [\<lparr>reasonN = r, pointsN = pts\<rparr>]\<rparr>"

definition positiveN :: "'n Arithmetic \<Rightarrow> 'n option \<Rightarrow> bool" where
  "positiveN ar v = (v \<noteq> None \<and> js_gt ar (the v) (js_lit ar 0))"

definition scoreLocationN ::
  "'n Arithmetic \<Rightarrow> 'n PropertyN \<Rightarrow> 'n PreferencesN \<Rightarrow> 'n localsN \<Rightarrow> 'n localsN" where
  "scoreLocationN ar property preferences st =
     (if pn_latitude preferences \<noteq> None \<and> pn_longitude preferences \<noteq> None then
        (let radiusKm =
               (if positiveN ar (pn_locationRadiusKm preferences)
                then the (pn_locationRadiusKm preferences)
                else js_lit ar 10) in
         if ln_latitude property \<noteq> None \<and> ln_longitude property \<noteq> None then
           (let distanceKm =
                  haversineKmN ar (the (pn_latitude preferences)) (the (pn_longitude preferences))
                    (the (ln_latitude property)) (the (ln_longitude property));
                pts = safeRatioScoreN ar (js_lit ar 25) (js_div ar distanceKm radiusKm)
            in awardN ar (js_lit ar 25)
                 (LocationScoredByDistanceN (round2N ar distanceKm) radiusKm) pts st)
         else if truthy (pn_location preferences) then
           (let matched =
                  str_includes (toLowerCase (ln_location property))
                    (toLowerCase (the (pn_location preferences)));
                pts = (if matched then js_lit ar 25 else js_lit ar 0)
            in awardN ar (js_lit ar 25)
                 (if matched then FallbackMatchedN (the (pn_location preferences))
                  else FallbackDidNotMatchN (the (pn_location preferences))) pts st)
         else awardN ar (js_lit ar 25) CoordinatesMissingN (js_lit ar 0) st)
      else if truthy (pn_location preferences) then
        (let matched =
               str_includes (toLowerCase (ln_location property))
                 (toLowerCase (the (pn_location preferences)));
             pts = (if matched then js_lit ar 25 else js_lit ar 0)
         in awardN ar (js_lit ar 25)
              (if matched then LocationTextMatchedN (the (pn_location preferences))
               else LocationTextDidNotMatchN (the (pn_location preferences))) pts st)
      else st)"

definition scorePriceN ::
  "'n Arithmetic \<Rightarrow> 'n PropertyN \<Rightarrow> 'n PreferencesN \<Rightarrow> 'n localsN \<Rightarrow> 'n localsN" where
  "scorePriceN ar property preferences st =
     (if positiveN ar (pn_budget preferences) then
        (let budget = the (pn_budget preferences);
             price = ln_priceNpr property;
             pts =
               (case price of
                  None \<Rightarrow> js_lit ar 0
                | Some pr \<Rightarrow>
                    safeRatioScoreN ar (js_lit ar 30)
                      (js_div ar (js_abs ar (js_sub ar pr budget)) budget))
         in awardN ar (js_lit ar 30)
              (if price = None then PriceMissingN else BudgetClosenessN budget) pts st)
      else st)"

definition scoreRoiN ::
  "'n Arithmetic \<Rightarrow> 'n PropertyN \<Rightarrow> 'n PreferencesN \<Rightarrow> 'n localsN \<Rightarrow> 'n localsN" where
  "scoreRoiN ar property preferences st =
     (if positiveN ar (pn_roiPercent preferences) then
        (let preferred = the (pn_roiPercent preferences);
             roi = ln_roiPercent property;
             pts =
               (case roi of
                  None \<Rightarrow> js_lit ar 0
                | Some r \<Rightarrow>
                    if js_ge ar r preferred then js_lit ar 15
                    else round2N ar
                           (js_mul ar (js_lit ar 15)
                              (js_max ar (js_lit ar 0) (js_div ar r preferred))))
         in awardN ar (js_lit ar 15)
              (if roi = None then RoiMissingN else RoiScoredN preferred) pts st)
      else st)"

definition scoreAreaN ::
  "'n Arithmetic \<Rightarrow> 'n PropertyN \<Rightarrow> 'n PreferencesN \<Rightarrow> 'n localsN \<Rightarrow> 'n localsN" where
  "scoreAreaN ar property preferences st =
     (if positiveN ar (pn_areaSqft preferences) then
        (let preferred = the (pn_areaSqft preferences);
             area = ln_areaSqft property;
             pts =
               (case area of
                  None \<Rightarrow> js_lit ar 0
                | Some a \<Rightarrow>
                    safeRatioScoreN ar (js_lit ar 15)
                      (js_div ar (js_abs ar (js_sub ar a preferred)) preferred))
         in awardN ar (js_lit ar 15)
              (if area = None then AreaMissingN else AreaClosenessN preferred) pts st)
      else st)"

definition scoreDistanceN ::
  "'n Arithmetic \<Rightarrow> 'n PropertyN \<Rightarrow> 'n PreferencesN \<Rightarrow> 'n localsN \<Rightarrow> 'n localsN" where
  "scoreDistanceN ar property preferences st =
     (if positiveN ar (pn_maxDistanceFromHighway preferences) then
        (let preferred = the (pn_maxDistanceFromHighway preferences);
             distance = ln_distanceFromHighway property;
             pts =
               (case distance of
                  None \<Rightarrow> js_lit ar 0
                | Some d \<Rightarrow>
                    if js_le ar d preferred then js_lit ar 15
                    else safeRatioScoreN ar (js_lit ar 15)
                           (js_div ar (js_sub ar d preferred) preferred))
         in awardN ar (js_lit ar 15)
              (if distance = None then DistanceMissingN else DistanceScoredN preferred) pts st)
      else st)"

definition initialLocalsN :: "'n Arithmetic \<Rightarrow> 'n localsN" where
  "initialLocalsN ar = \<lparr>vn_score = js_lit ar 0, vn_maxPossible = js_lit ar 0, vn_explanation = []\<rparr>"

definition scoreBlocksN ::
  "'n Arithmetic \<Rightarrow> 'n PropertyN \<Rightarrow> 'n PreferencesN \<Rightarrow> 'n localsN" where
  "scoreBlocksN ar property preferences =
     scoreDistanceN ar property preferences
       (scoreAreaN ar property preferences
         (scoreRoiN ar property preferences
           (scorePriceN ar property preferences
             (scoreLocationN ar property preferences (initialLocalsN ar)))))"

definition scorePropertyN ::
  "'n Arithmetic \<Rightarrow> 'n PropertyN \<Rightarrow> 'n PreferencesN \<Rightarrow> 'n ScoreN" where
  "scorePropertyN ar property preferences =
     (let st = scoreBlocksN ar property preferences;
          matchPercentage =
            (if js_eq ar (vn_maxPossible st) (js_lit ar 0) then js_lit ar 0
             else js_round ar
                    (js_mul ar (js_div ar (vn_score st) (vn_maxPossible st)) (js_lit ar 100)))
      in \<lparr>scoreN = round2N ar (vn_score st),
          maxPossibleN = vn_maxPossible st,
          matchPercentageN = matchPercentage,
          explanationN = vn_explanation st\<rparr>)"

text \<open>The sum of the points of a sequence of entries, added from 0 in the order of the
  sequence, and the invariant of the blocks: the local \<^verbatim>\<open>score\<close> is that sum.\<close>

definition sumPoints :: "'n Arithmetic \<Rightarrow> 'n ExplanationN list \<Rightarrow> 'n" where
  "sumPoints ar es = foldl (js_add ar) (js_lit ar 0) (map pointsN es)"

definition accounted :: "'n Arithmetic \<Rightarrow> 'n localsN \<Rightarrow> bool" where
  "accounted ar st = (vn_score st = sumPoints ar (vn_explanation st))"

text \<open>The exact arithmetic of the real numbers: one arithmetic among others, used to
  evaluate the definitions at a concrete input.\<close>

definition exactArithmetic :: "real Arithmetic" where
  "exactArithmetic =
     \<lparr>js_lit = of_int, js_PI = pi, js_add = (+), js_sub = (-), js_mul = (*), js_div = (/),
      js_gt = (\<lambda>x y. y < x), js_ge = (\<lambda>x y. y \<le> x), js_le = (\<le>), js_eq = (=),
      js_abs = abs, js_max = max, js_round = Math_round, js_sin = sin, js_cos = cos,
      js_sqrt = sqrt, js_atan2 = Math_atan2\<rparr>"

definition sixListing :: "real PropertyN" where
  "sixListing =
     \<lparr>ln_id = Some 7, ln_title = ''House'', ln_location = ''Pokhara'', ln_categoryId = 1,
      ln_status = ''Available'', ln_latitude = None, ln_longitude = None,
      ln_priceNpr = Some 6, ln_roiPercent = None, ln_areaSqft = Some 6,
      ln_distanceFromHighway = None\<rparr>"

definition sevenPreferences :: "real PreferencesN" where
  "sevenPreferences =
     \<lparr>pn_location = None, pn_latitude = None, pn_longitude = None,
      pn_locationRadiusKm = None, pn_budget = Some 7, pn_roiPercent = None,
      pn_areaSqft = Some 7, pn_maxDistanceFromHighway = None\<rparr>"

text \<open>
  An arithmetic with the special values of IEEE 754: NaN and the two infinities, with the
  rules of the standard and of ECMAScript for them (\<open>\<infinity> - \<infinity>\<close>, \<open>0 * \<infinity>\<close> and \<open>\<infinity> / \<infinity>\<close> are
  NaN; NaN propagates through every operation and through \<^verbatim>\<open>Math.max\<close>; every
  comparison with NaN is false). On finite values the results are exact and zero has no
  sign: this arithmetic is used below at inputs where no finite result is rounded and no
  zero is divided by.
\<close>

datatype jsnum = NaN | PosInf | NegInf | Fin real

fun num_neg :: "jsnum \<Rightarrow> jsnum" where
  "num_neg NaN = NaN"
| "num_neg PosInf = NegInf"
| "num_neg NegInf = PosInf"
| "num_neg (Fin x) = Fin (- x)"

fun num_add :: "jsnum \<Rightarrow> jsnum \<Rightarrow> jsnum" where
  "num_add NaN b = NaN"
| "num_add a NaN = NaN"
| "num_add PosInf NegInf = NaN"
| "num_add NegInf PosInf = NaN"
| "num_add PosInf b = PosInf"
| "num_add a PosInf = PosInf"
| "num_add NegInf b = NegInf"
| "num_add a NegInf = NegInf"
| "num_add (Fin x) (Fin y) = Fin (x + y)"

definition num_sub :: "jsnum \<Rightarrow> jsnum \<Rightarrow> jsnum" where
  "num_sub a b = num_add a (num_neg b)"

fun num_sign :: "jsnum \<Rightarrow> real" where
  "num_sign NaN = 0"
| "num_sign PosInf = 1"
| "num_sign NegInf = - 1"
| "num_sign (Fin x) = sgn x"

definition infinityOfSign :: "real \<Rightarrow> jsnum" where
  "infinityOfSign s = (if s = 0 then NaN else if 0 < s then PosInf else NegInf)"

fun num_mul :: "jsnum \<Rightarrow> jsnum \<Rightarrow> jsnum" where
  "num_mul NaN b = NaN"
| "num_mul a NaN = NaN"
| "num_mul (Fin x) (Fin y) = Fin (x * y)"
| "num_mul a b = infinityOfSign (num_sign a * num_sign b)"

fun num_div :: "jsnum \<Rightarrow> jsnum \<Rightarrow> jsnum" where
  "num_div NaN b = NaN"
| "num_div a NaN = NaN"
| "num_div (Fin x) (Fin y) = (if y = 0 then infinityOfSign (sgn x) else Fin (x / y))"
| "num_div (Fin x) b = Fin 0"
| "num_div a (Fin y) = infinityOfSign (num_sign a * (if y < 0 then - 1 else 1))"
| "num_div a b = NaN"

fun num_le :: "jsnum \<Rightarrow> jsnum \<Rightarrow> bool" where
  "num_le NaN b = False"
| "num_le a NaN = False"
| "num_le NegInf b = True"
| "num_le a PosInf = True"
| "num_le (Fin x) (Fin y) = (x \<le> y)"
| "num_le a b = False"

definition num_eq :: "jsnum \<Rightarrow> jsnum \<Rightarrow> bool" where
  "num_eq a b = (a \<noteq> NaN \<and> a = b)"

definition num_gt :: "jsnum \<Rightarrow> jsnum \<Rightarrow> bool" where
  "num_gt a b = (num_le b a \<and> \<not> num_eq a b)"

fun num_abs :: "jsnum \<Rightarrow> jsnum" where
  "num_abs NaN = NaN"
| "num_abs PosInf = PosInf"
| "num_abs NegInf = PosInf"
| "num_abs (Fin x) = Fin \<bar>x\<bar>"

definition num_max :: "jsnum \<Rightarrow> jsnum \<Rightarrow> jsnum" where
  "num_max a b = (if a = NaN \<or> b = NaN then NaN else if num_le a b then b else a)"

fun num_round :: "jsnum \<Rightarrow> jsnum" where
  "num_round (Fin x) = Fin (Math_round x)"
| "num_round a = a"

fun num_sin :: "jsnum \<Rightarrow> jsnum" where
  "num_sin (Fin x) = Fin (sin x)"
| "num_sin a = NaN"

fun num_cos :: "jsnum \<Rightarrow> jsnum" where
  "num_cos (Fin x) = Fin (cos x)"
| "num_cos a = NaN"

fun num_sqrt :: "jsnum \<Rightarrow> jsnum" where
  "num_sqrt (Fin x) = (if x < 0 then NaN else Fin (sqrt x))"
| "num_sqrt PosInf = PosInf"
| "num_sqrt a = NaN"

fun num_atan2 :: "jsnum \<Rightarrow> jsnum \<Rightarrow> jsnum" where
  "num_atan2 NaN x = NaN"
| "num_atan2 y NaN = NaN"
| "num_atan2 (Fin y) (Fin x) = Fin (Math_atan2 y x)"
| "num_atan2 (Fin y) PosInf = Fin 0"
| "num_atan2 (Fin y) NegInf = Fin (if 0 \<le> y then pi else - pi)"
| "num_atan2 PosInf (Fin x) = Fin (pi / 2)"
| "num_atan2 NegInf (Fin x) = Fin (- (pi / 2))"
| "num_atan2 PosInf PosInf = Fin (pi / 4)"
| "num_atan2 PosInf NegInf = Fin (3 * pi / 4)"
| "num_atan2 NegInf PosInf = Fin (- (pi / 4))"
| "num_atan2 NegInf NegInf = Fin (- (3 * pi / 4))"

definition extendedArithmetic :: "jsnum Arithmetic" where
  "extendedArithmetic =
     \<lparr>js_lit = (\<lambda>n. Fin (of_int n)), js_PI = Fin pi, js_add = num_add, js_sub = num_sub,
      js_mul = num_mul, js_div = num_div, js_gt = num_gt, js_ge = (\<lambda>a b. num_le b a),
      js_le = num_le, js_eq = num_eq, js_abs = num_abs, js_max = num_max,
      js_round = num_round, js_sin = num_sin, js_cos = num_cos, js_sqrt = num_sqrt,
      js_atan2 = num_atan2\<rparr>"

definition pricedListing :: "real \<Rightarrow> jsnum PropertyN" where
  "pricedListing price =
     \<lparr>ln_id = Some (Fin 1), ln_title = ''t'', ln_location = ''x'', ln_categoryId = Fin 1,
      ln_status = ''s'', ln_latitude = None, ln_longitude = None,
      ln_priceNpr = Some (Fin price), ln_roiPercent = None, ln_areaSqft = None,
      ln_distanceFromHighway = None\<rparr>"

definition infiniteBudget :: "jsnum PreferencesN" where
  "infiniteBudget =
     \<lparr>pn_location = None, pn_latitude = None, pn_longitude = None,
      pn_locationRadiusKm = None, pn_budget = Some PosInf, pn_roiPercent = None,
      pn_areaSqft = None, pn_maxDistanceFromHighway = None\<rparr>"

section \<open>The controller: \<^verbatim>\<open>getRecommendations\<close>\<close>

text \<open>
  The model starts from the request already read as a \<^verbatim>\<open>RecommendationRequestBody\<close>
  (the JSON body of a POST, or the result of \<^verbatim>\<open>buildFromQuery\<close> for a GET). The two
  collaborators are parameters: \<^verbatim>\<open>geocodeLocation\<close>, which resolves to coordinates or to
  \<^verbatim>\<open>null\<close> and never rejects, and \<^verbatim>\<open>Property.findAll\<close>, which returns the candidates or
  throws (\<open>Inl\<close> carries the message of the error). The function returns the calls made
  to the collaborators, in order, and the response sent.
\<close>

record RecommendationRequestBody =
  rq_mustHave :: "RecommendationMustHave option"
  rq_preferences :: "RecommendationPreferences option"
  rq_page :: "real option"
  rq_limit :: "real option"

record Coordinates =
  latitude :: real
  longitude :: real

text \<open>The \<^verbatim>\<open>where\<close> object handed to the catalog: one field per column operator.\<close>

record WhereOptions =
  w_location_iLike :: "string option"
  w_categoryId :: "real option"
  w_status_iLike :: "string option"
  w_priceNpr_gte :: "real option"
  w_priceNpr_lte :: "real option"
  w_roiPercent_gte :: "real option"
  w_areaSqft_gte :: "real option"
  w_distanceFromHighway_lte :: "real option"

record RankedItem =
  r_property :: RecommendationProperty
  r_matchPercentage :: real
  r_score :: real
  r_explanation :: "RecommendationExplanation list"

record Pagination =
  pg_page :: real
  pg_limit :: real
  pg_total :: real
  pg_totalPages :: real
  pg_hasNext :: bool
  pg_hasPrev :: bool

datatype body =
    Message string
  | Recommendations "RankedItem list" Pagination
  | Failure string string

datatype call = GeocodeLocation string | PropertyFindAll WhereOptions

text \<open>\<^verbatim>\<open>parseNumber\<close> on a value that is a number or \<^verbatim>\<open>undefined\<close>: a number is
  returned (NaN, which the model does not have, would become \<^verbatim>\<open>undefined\<close>).\<close>

definition parseNumber :: "real option \<Rightarrow> real option" where
  "parseNumber v = (case v of None \<Rightarrow> None | Some n \<Rightarrow> Some n)"

text \<open>\<^verbatim>\<open>String.prototype.trim\<close>, on the ASCII white space and line terminators.\<close>

definition isSpace :: "char \<Rightarrow> bool" where
  "isSpace c = (c \<in> set [CHR '' '', CHR 0x09, CHR 0x0A, CHR 0x0B, CHR 0x0C, CHR 0x0D])"

definition trim :: "string \<Rightarrow> string" where
  "trim s = rev (dropWhile isSpace (rev (dropWhile isSpace s)))"

text \<open>\<^verbatim>\<open>input.location?.trim() || undefined\<close>\<close>

definition trimOrUndefined :: "string option \<Rightarrow> string option" where
  "trimOrUndefined v =
     (case v of
        None \<Rightarrow> None
      | Some s \<Rightarrow> (if trim s = [] then None else Some (trim s)))"

definition sanitizeMustHave :: "RecommendationMustHave option \<Rightarrow> RecommendationMustHave" where
  "sanitizeMustHave input =
     (case input of
        None \<Rightarrow> noMustHave
      | Some i \<Rightarrow>
          \<lparr>mh_location = trimOrUndefined (mh_location i),
           mh_categoryId = parseNumber (mh_categoryId i),
           mh_minPrice = parseNumber (mh_minPrice i),
           mh_maxPrice = parseNumber (mh_maxPrice i),
           mh_minRoi = parseNumber (mh_minRoi i),
           mh_minArea = parseNumber (mh_minArea i),
           mh_maxDistanceFromHighway = parseNumber (mh_maxDistanceFromHighway i),
           mh_status = trimOrUndefined (mh_status i)\<rparr>)"

definition sanitizePreferences ::
  "RecommendationPreferences option \<Rightarrow> RecommendationPreferences" where
  "sanitizePreferences input =
     (case input of
        None \<Rightarrow> noPreferences
      | Some i \<Rightarrow>
          \<lparr>pf_location = trimOrUndefined (pf_location i),
           pf_latitude = parseNumber (pf_latitude i),
           pf_longitude = parseNumber (pf_longitude i),
           pf_locationRadiusKm = parseNumber (pf_locationRadiusKm i),
           pf_budget = parseNumber (pf_budget i),
           pf_roiPercent = parseNumber (pf_roiPercent i),
           pf_areaSqft = parseNumber (pf_areaSqft i),
           pf_maxDistanceFromHighway = parseNumber (pf_maxDistanceFromHighway i)\<rparr>)"

text \<open>\<^verbatim>\<open>value || fallback\<close> on an optional number: \<^verbatim>\<open>undefined\<close> and 0 are falsy.\<close>

definition orNumber :: "real option \<Rightarrow> real \<Rightarrow> real" where
  "orNumber v fallback = (case v of None \<Rightarrow> fallback | Some n \<Rightarrow> if n = 0 then fallback else n)"

definition needsGeocoding :: "RecommendationPreferences \<Rightarrow> bool" where
  "needsGeocoding preferences =
     (truthy (pf_location preferences) \<and>
      (pf_latitude preferences = None \<or> pf_longitude preferences = None))"

definition withCoordinates ::
  "Coordinates option \<Rightarrow> RecommendationPreferences \<Rightarrow> RecommendationPreferences" where
  "withCoordinates coordinates preferences =
     (case coordinates of
        None \<Rightarrow> preferences
      | Some c \<Rightarrow> preferences\<lparr>pf_latitude := Some (latitude c), pf_longitude := Some (longitude c)\<rparr>)"

definition buildWhere :: "RecommendationMustHave \<Rightarrow> WhereOptions" where
  "buildWhere mustHave =
     \<lparr>w_location_iLike =
        (if truthy (mh_location mustHave) then Some (''%'' @ the (mh_location mustHave) @ ''%'')
         else None),
      w_categoryId = mh_categoryId mustHave,
      w_status_iLike = (if truthy (mh_status mustHave) then mh_status mustHave else None),
      w_priceNpr_gte = mh_minPrice mustHave,
      w_priceNpr_lte = mh_maxPrice mustHave,
      w_roiPercent_gte = mh_minRoi mustHave,
      w_areaSqft_gte = mh_minArea mustHave,
      w_distanceFromHighway_lte = mh_maxDistanceFromHighway mustHave\<rparr>"

definition rankItem :: "RecommendationPreferences \<Rightarrow> RecommendationProperty \<Rightarrow> RankedItem" where
  "rankItem preferences property =
     (let scored = scoreProperty property preferences
      in \<lparr>r_property = property,
          r_matchPercentage = matchPercentage scored,
          r_score = score scored,
          r_explanation = explanation scored\<rparr>)"

text \<open>The comparator \<^verbatim>\<open>(a, b) => b.score - a.score || b.matchPercentage - a.matchPercentage\<close>
  and \<^verbatim>\<open>Array.prototype.sort\<close>, a stable sort, as a stable insertion sort.\<close>

definition compareRanked :: "RankedItem \<Rightarrow> RankedItem \<Rightarrow> real" where
  "compareRanked a b =
     (if r_score b - r_score a \<noteq> 0 then r_score b - r_score a
      else r_matchPercentage b - r_matchPercentage a)"

fun insertRanked :: "RankedItem \<Rightarrow> RankedItem list \<Rightarrow> RankedItem list" where
  "insertRanked x [] = [x]"
| "insertRanked x (y # ys) =
     (if compareRanked x y \<le> 0 then x # y # ys else y # insertRanked x ys)"

fun sortRanked :: "RankedItem list \<Rightarrow> RankedItem list" where
  "sortRanked [] = []"
| "sortRanked (x # xs) = insertRanked x (sortRanked xs)"

text \<open>\<^verbatim>\<open>Array.prototype.slice(start, end)\<close> on integral arguments: a negative argument
  counts from the end, and both are clamped to the length.\<close>

definition slice :: "'a list \<Rightarrow> real \<Rightarrow> real \<Rightarrow> 'a list" where
  "slice xs start end =
     (let len = int (length xs);
          s = \<lfloor>Math_trunc start\<rfloor>;
          e = \<lfloor>Math_trunc end\<rfloor>;
          k = (if s < 0 then max (len + s) 0 else min s len);
          final = (if e < 0 then max (len + e) 0 else min e len)
      in take (nat (final - k)) (drop (nat k) xs))"

definition paginationOf :: "real \<Rightarrow> real \<Rightarrow> real \<Rightarrow> Pagination" where
  "paginationOf page limit totalCount =
     (let totalPages = max 1 (Math_ceil (totalCount / limit))
      in \<lparr>pg_page = page, pg_limit = limit, pg_total = totalCount, pg_totalPages = totalPages,
          pg_hasNext = (page < totalPages), pg_hasPrev = (page > 1)\<rparr>)"

definition invalidPriceRange :: "RecommendationMustHave \<Rightarrow> bool" where
  "invalidPriceRange mustHave =
     (mh_minPrice mustHave \<noteq> None \<and> mh_maxPrice mustHave \<noteq> None \<and>
      the (mh_minPrice mustHave) > the (mh_maxPrice mustHave))"

definition getRecommendations ::
  "(string \<Rightarrow> Coordinates option) \<Rightarrow> (WhereOptions \<Rightarrow> string + RecommendationProperty list) \<Rightarrow>
   RecommendationRequestBody \<Rightarrow> call list \<times> nat \<times> body" where
  "getRecommendations geocodeLocation findAll source =
     (let mustHave = sanitizeMustHave (rq_mustHave source);
          preferences0 = sanitizePreferences (rq_preferences source);
          geoCalls =
            (if needsGeocoding preferences0 then [GeocodeLocation (the (pf_location preferences0))]
             else []);
          preferences =
            (if needsGeocoding preferences0
             then withCoordinates (geocodeLocation (the (pf_location preferences0))) preferences0
             else preferences0);
          page = max 1 (Math_trunc (orNumber (rq_page source) 1));
          limit = min 50 (max 1 (Math_trunc (orNumber (rq_limit source) 20)))
      in if invalidPriceRange mustHave then
           (geoCalls,
            400, Message ''Invalid constraints: minPrice cannot be greater than maxPrice'')
         else
           (let whereOptions = buildWhere mustHave in
            case findAll whereOptions of
              Inl err \<Rightarrow>
                (geoCalls @ [PropertyFindAll whereOptions],
                 500, Failure ''Failed to build recommendations'' err)
            | Inr candidates \<Rightarrow>
                (let hardFiltered = applyHardFilters candidates mustHave;
                     ranked = sortRanked (map (rankItem preferences) hardFiltered);
                     totalCount = real (length ranked);
                     offset = (page - 1) * limit;
                     data = slice ranked offset (offset + limit)
                 in (geoCalls @ [PropertyFindAll whereOptions],
                     200, Recommendations data (paginationOf page limit totalCount)))))"


section \<open>Observations on a score result\<close>

text \<open>The five criteria, the criterion an explanation entry belongs to, and the points
  of the entries of one criterion in a result, in order.\<close>

datatype criterion = Location | Price | Roi | Area | Distance

fun criterionOf :: "reason \<Rightarrow> criterion" where
  "criterionOf (LocationScoredByDistance d r) = Location"
| "criterionOf (FallbackMatched t) = Location"
| "criterionOf (FallbackDidNotMatch t) = Location"
| "criterionOf CoordinatesMissing = Location"
| "criterionOf (LocationTextMatched t) = Location"
| "criterionOf (LocationTextDidNotMatch t) = Location"
| "criterionOf PriceMissing = Price"
| "criterionOf (BudgetCloseness b) = Price"
| "criterionOf RoiMissing = Roi"
| "criterionOf (RoiScored r) = Roi"
| "criterionOf AreaMissing = Area"
| "criterionOf (AreaCloseness a) = Area"
| "criterionOf DistanceMissing = Distance"
| "criterionOf (DistanceScored m) = Distance"

definition entriesOf :: "criterion \<Rightarrow> RecommendationExplanation list \<Rightarrow> RecommendationExplanation list" where
  "entriesOf c es = filter (\<lambda>e. criterionOf (reason e) = c) es"

definition criterionPoints :: "criterion \<Rightarrow> RecommendationScore \<Rightarrow> real list" where
  "criterionPoints c res = map points (entriesOf c (explanation res))"

fun weightOf :: "criterion \<Rightarrow> real" where
  "weightOf Location = WEIGHTS_location"
| "weightOf Price = WEIGHTS_price"
| "weightOf Roi = WEIGHTS_roi"
| "weightOf Area = WEIGHTS_area"
| "weightOf Distance = WEIGHTS_distance"

text \<open>When a criterion is active, in the words of the specification: the location
  criterion when both coordinates or a location text are given, each other criterion
  when its preference is present and greater than 0.\<close>

definition isPositive :: "real option \<Rightarrow> bool" where
  "isPositive v = (case v of None \<Rightarrow> False | Some x \<Rightarrow> 0 < x)"

definition coordinateMode :: "RecommendationPreferences \<Rightarrow> bool" where
  "coordinateMode P = (pf_latitude P \<noteq> None \<and> pf_longitude P \<noteq> None)"

fun isActive :: "criterion \<Rightarrow> RecommendationPreferences \<Rightarrow> bool" where
  "isActive Location P = (coordinateMode P \<or> truthy (pf_location P))"
| "isActive Price P = isPositive (pf_budget P)"
| "isActive Roi P = isPositive (pf_roiPercent P)"
| "isActive Area P = isPositive (pf_areaSqft P)"
| "isActive Distance P = isPositive (pf_maxDistanceFromHighway P)"

definition activeWeights :: "criterion list \<Rightarrow> RecommendationPreferences \<Rightarrow> real" where
  "activeWeights cs P = sum_list (map weightOf (filter (\<lambda>c. isActive c P) cs))"

text \<open>Two values of the local variables, added: the effect of a block on the locals is
  the sum of the locals before it and of what the block yields from the initial ones.\<close>

definition combine :: "locals \<Rightarrow> locals \<Rightarrow> locals" where
  "combine st d =
     \<lparr>l_score = l_score st + l_score d,
      l_maxPossible = l_maxPossible st + l_maxPossible d,
      l_explanation = l_explanation st @ l_explanation d\<rparr>"

section \<open>Concrete inputs\<close>


definition kathmanduMustHave :: RecommendationMustHave where
  "kathmanduMustHave =
     noMustHave\<lparr>mh_location := Some ''KATH'', mh_maxPrice := Some 6000000,
       mh_status := Some ''available''\<rparr>"

definition costlyListing :: RecommendationProperty where
  "costlyListing = sampleListing\<lparr>p_priceNpr := Some 7000000\<rparr>"

section \<open>Shape of a block\<close>

text \<open>A block of criterion \<open>c\<close> leaves the locals alone when \<open>c\<close> is not active, and awards
  once, with the weight of \<open>c\<close> and a reason of \<open>c\<close>, when it is.\<close>

definition blockOf :: "criterion \<Rightarrow> RecommendationPreferences \<Rightarrow> locals \<Rightarrow> bool" where
  "blockOf c P d =
     (\<exists>r p. criterionOf r = c \<and>
        d = (if isActive c P then award (weightOf c) r p initialLocals else initialLocals))"

text \<open>The location block, by its four active branches.\<close>

definition hasCoordinates :: "RecommendationProperty \<Rightarrow> bool" where
  "hasCoordinates L = (p_latitude L \<noteq> None \<and> p_longitude L \<noteq> None)"

definition textMatches :: "RecommendationProperty \<Rightarrow> RecommendationPreferences \<Rightarrow> bool" where
  "textMatches L P =
     (truthy (pf_location P) \<and>
      str_includes (toLowerCase (p_location L)) (toLowerCase (the (pf_location P))))"

definition distancePointsKm :: "RecommendationProperty \<Rightarrow> RecommendationPreferences \<Rightarrow> real" where
  "distancePointsKm L P =
     safeRatioScore WEIGHTS_location
       (haversineKm (the (pf_latitude P)) (the (pf_longitude P))
          (the (p_latitude L)) (the (p_longitude L)) / radiusKmOf P)"

text \<open>More concrete inputs.\<close>

definition scenarioPreferences :: RecommendationPreferences where
  "scenarioPreferences =
     noPreferences\<lparr>pf_location := Some ''Kathmandu'', pf_budget := Some 5000000,
       pf_areaSqft := Some 1200, pf_maxDistanceFromHighway := Some 1000\<rparr>"

definition fallbackPreferences :: RecommendationPreferences where
  "fallbackPreferences =
     noPreferences\<lparr>pf_location := Some ''kathmandu'', pf_latitude := Some 27.7,
       pf_longitude := Some 85.3\<rparr>"

definition bareListing :: RecommendationProperty where
  "bareListing =
     sampleListing\<lparr>p_priceNpr := None, p_areaSqft := None, p_distanceFromHighway := None\<rparr>"

definition allPreferences :: RecommendationPreferences where
  "allPreferences =
     \<lparr>pf_location = None, pf_latitude = Some 27.7, pf_longitude = Some 85.3,
      pf_locationRadiusKm = None, pf_budget = Some 5000000, pf_roiPercent = Some 10,
      pf_areaSqft = Some 1200, pf_maxDistanceFromHighway = Some 1000\<rparr>"

definition idlePreferences :: RecommendationPreferences where
  "idlePreferences =
     noPreferences\<lparr>pf_location := Some '''', pf_latitude := Some 27.7, pf_budget := Some 0\<rparr>"


definition thirdPageRequest :: RecommendationRequestBody where
  "thirdPageRequest =
     \<lparr>rq_mustHave = None, rq_preferences = None, rq_page = Some 3, rq_limit = None\<rparr>"

definition noGeocoder :: "string \<Rightarrow> Coordinates option" where
  "noGeocoder address = None"


definition emptyCatalog :: "WhereOptions \<Rightarrow> string + RecommendationProperty list" where
  "emptyCatalog w = Inr []"

definition emptyThirdPage :: Pagination where
  "emptyThirdPage =
     \<lparr>pg_page = 3, pg_limit = 20, pg_total = 0, pg_totalPages = 1, pg_hasNext = False,
      pg_hasPrev = True\<rparr>"

definition validationMessage :: string where
  "validationMessage = ''Invalid constraints: minPrice cannot be greater than maxPrice''"

definition fiveListings :: "RecommendationProperty list" where
  "fiveListings = [sampleListing, costlyListing, bareListing, sampleListing, costlyListing]"

definition fiveListingCatalog :: "WhereOptions \<Rightarrow> string + RecommendationProperty list" where
  "fiveListingCatalog w = Inr fiveListings"

definition secondPageRequest :: RecommendationRequestBody where
  "secondPageRequest =
     \<lparr>rq_mustHave = None, rq_preferences = None, rq_page = Some 2, rq_limit = Some 2\<rparr>"

definition secondOfThreePages :: Pagination where
  "secondOfThreePages =
     \<lparr>pg_page = 2, pg_limit = 2, pg_total = 5, pg_totalPages = 3, pg_hasNext = True,
      pg_hasPrev = True\<rparr>"

section \<open>Hard filters: theorems\<close>

lemma rejectsLocation_iff: "rejectsLocation M L \<longleftrightarrow> \<not> locationConstraint M L"
  by (cases "mh_location M") (auto simp: rejectsLocation_def locationConstraint_def str_includes_def toLowerCase_def)

lemma rejectsCategoryId_iff: "rejectsCategoryId M L \<longleftrightarrow> \<not> categoryConstraint M L"
  by (cases "mh_categoryId M") (auto simp: rejectsCategoryId_def categoryConstraint_def)

lemma rejectsStatus_iff: "rejectsStatus M L \<longleftrightarrow> \<not> statusConstraintNonEmpty M L"
  by (cases "mh_status M") (auto simp: rejectsStatus_def statusConstraintNonEmpty_def)

lemma rejectsMinPrice_iff: "rejectsMinPrice M L \<longleftrightarrow> \<not> lowerBound (mh_minPrice M) (p_priceNpr L)"
  by (auto simp: rejectsMinPrice_def lowerBound_def split: option.splits)

lemma rejectsMaxPrice_iff: "rejectsMaxPrice M L \<longleftrightarrow> \<not> upperBound (mh_maxPrice M) (p_priceNpr L)"
  by (auto simp: rejectsMaxPrice_def upperBound_def split: option.splits)

lemma rejectsMinRoi_iff: "rejectsMinRoi M L \<longleftrightarrow> \<not> lowerBound (mh_minRoi M) (p_roiPercent L)"
  by (auto simp: rejectsMinRoi_def lowerBound_def split: option.splits)

lemma rejectsMinArea_iff: "rejectsMinArea M L \<longleftrightarrow> \<not> lowerBound (mh_minArea M) (p_areaSqft L)"
  by (auto simp: rejectsMinArea_def lowerBound_def split: option.splits)

lemma rejectsMaxDistance_iff:
  "rejectsMaxDistance M L \<longleftrightarrow>
     \<not> upperBound (mh_maxDistanceFromHighway M) (p_distanceFromHighway L)"
  by (auto simp: rejectsMaxDistance_def upperBound_def split: option.splits)

lemma hardFilterCallback_iff: "hardFilterCallback M L \<longleftrightarrow> satisfiesMustHave M L"
  by (simp add: hardFilterCallback_def satisfiesMustHave_def numericConstraints_def
      rejectsLocation_iff rejectsCategoryId_iff rejectsStatus_iff rejectsMinPrice_iff
      rejectsMaxPrice_iff rejectsMinRoi_iff rejectsMinArea_iff rejectsMaxDistance_iff)



lemma kathmandu_accepts_sample: "satisfiesMustHave kathmanduMustHave sampleListing"
  by (simp add: satisfiesMustHave_def locationConstraint_def categoryConstraint_def
      statusConstraintNonEmpty_def numericConstraints_def lowerBound_def upperBound_def
      kathmanduMustHave_def noMustHave_def sampleListing_def toLowerCase_def lowerChar_def
      sublist_code(1,3))

lemma kathmandu_rejects_costly: "\<not> satisfiesMustHave kathmanduMustHave costlyListing"
  by (simp add: satisfiesMustHave_def numericConstraints_def lowerBound_def upperBound_def
      kathmanduMustHave_def noMustHave_def sampleListing_def costlyListing_def)




text \<open>
  Claim C8: applying the hard filter twice equals applying it once.
\<close>

theorem applyHardFilters_idempotent:
  "applyHardFilters (applyHardFilters S M) M = applyHardFilters S M"
  by (simp add: applyHardFilters_def)

theorem applyHardFilters_idempotent_witness:
  "applyHardFilters (applyHardFilters [costlyListing, sampleListing] kathmanduMustHave)
     kathmanduMustHave = [sampleListing]"
proof -
  have "applyHardFilters [costlyListing, sampleListing] kathmanduMustHave = [sampleListing]"
    by (simp add: applyHardFilters_def hardFilterCallback_iff kathmandu_accepts_sample
        kathmandu_rejects_costly)
  then show ?thesis
    using applyHardFilters_idempotent [of "[costlyListing, sampleListing]" kathmanduMustHave]
    by simp
qed

section \<open>Scoring: rounding\<close>

lemma Math_round_of_int: "Math_round (of_int n) = of_int n"
  by (simp add: Math_round_def)

lemma round2_of_int: "round2 (of_int n) = of_int n"
proof -
  have "Math_round (of_int n * 100) = Math_round (of_int (n * 100))" by simp
  also have "\<dots> = of_int (n * 100)" by (rule Math_round_of_int)
  finally show ?thesis by (simp add: round2_def)
qed

lemma round2_zero: "round2 0 = 0"
  using round2_of_int [of 0] by simp

section \<open>Scoring: the five blocks\<close>

lemma combine_initial: "combine st initialLocals = st"
  by (simp add: combine_def initialLocals_def)

lemma award_combine: "award w r p st = combine st (award w r p initialLocals)"
  by (simp add: award_def combine_def initialLocals_def)

lemma scoreLocation_combine:
  "scoreLocation L P st = combine st (scoreLocation L P initialLocals)"
  by (simp add: scoreLocation_def Let_def combine_initial award_combine [of _ _ _ st])

lemma scorePrice_combine: "scorePrice L P st = combine st (scorePrice L P initialLocals)"
  by (simp add: scorePrice_def Let_def combine_initial award_combine [of _ _ _ st])

lemma scoreRoi_combine: "scoreRoi L P st = combine st (scoreRoi L P initialLocals)"
  by (simp add: scoreRoi_def Let_def combine_initial award_combine [of _ _ _ st])

lemma scoreArea_combine: "scoreArea L P st = combine st (scoreArea L P initialLocals)"
  by (simp add: scoreArea_def Let_def combine_initial award_combine [of _ _ _ st])

lemma scoreDistance_combine: "scoreDistance L P st = combine st (scoreDistance L P initialLocals)"
  by (simp add: scoreDistance_def Let_def combine_initial award_combine [of _ _ _ st])

lemma scoreBlocks_combine:
  "scoreBlocks L P =
     combine (combine (combine (combine (scoreLocation L P initialLocals)
       (scorePrice L P initialLocals)) (scoreRoi L P initialLocals))
       (scoreArea L P initialLocals)) (scoreDistance L P initialLocals)"
  unfolding scoreBlocks_def
  by (subst scoreDistance_combine, subst scoreArea_combine, subst scoreRoi_combine,
      subst scorePrice_combine) (rule refl)

lemma scoreBlocks_explanation:
  "l_explanation (scoreBlocks L P) =
     l_explanation (scoreLocation L P initialLocals) @
     l_explanation (scorePrice L P initialLocals) @
     l_explanation (scoreRoi L P initialLocals) @
     l_explanation (scoreArea L P initialLocals) @
     l_explanation (scoreDistance L P initialLocals)"
  by (simp add: scoreBlocks_combine combine_def)

lemma scoreBlocks_maxPossible:
  "l_maxPossible (scoreBlocks L P) =
     l_maxPossible (scoreLocation L P initialLocals) +
     l_maxPossible (scorePrice L P initialLocals) +
     l_maxPossible (scoreRoi L P initialLocals) +
     l_maxPossible (scoreArea L P initialLocals) +
     l_maxPossible (scoreDistance L P initialLocals)"
  by (simp add: scoreBlocks_combine combine_def)

lemma blockOfI_active:
  "isActive c P \<Longrightarrow> criterionOf r = c \<Longrightarrow> d = award (weightOf c) r p initialLocals \<Longrightarrow>
   blockOf c P d"
  unfolding blockOf_def by auto

lemma blockOfI_inactive: "\<not> isActive c P \<Longrightarrow> d = initialLocals \<Longrightarrow> blockOf c P d"
proof -
  assume a: "\<not> isActive c P" "d = initialLocals"
  obtain r where r: "criterionOf r = c"
    by (cases c) (auto intro: criterionOf.simps)
  show ?thesis unfolding blockOf_def using a r by (intro exI [of _ r] exI [of _ 0]) simp
qed

lemma scorePrice_block: "blockOf Price P (scorePrice L P initialLocals)"
proof (cases "isActive Price P")
  case True
  then obtain b where b: "pf_budget P = Some b" "0 < b"
    by (auto simp: isPositive_def split: option.splits)
  show ?thesis
    using True b
    by (intro blockOfI_active [where p = "pricePoints b (p_priceNpr L)"
          and r = "if p_priceNpr L = None then PriceMissing else BudgetCloseness b"])
       (simp_all add: scorePrice_def Let_def)
next
  case False
  then show ?thesis
    by (intro blockOfI_inactive) (auto simp: scorePrice_def isPositive_def split: option.splits)
qed

lemma scoreRoi_block: "blockOf Roi P (scoreRoi L P initialLocals)"
proof (cases "isActive Roi P")
  case True
  then obtain b where b: "pf_roiPercent P = Some b" "0 < b"
    by (auto simp: isPositive_def split: option.splits)
  show ?thesis
    using True b
    by (intro blockOfI_active [where p = "roiPoints b (p_roiPercent L)"
          and r = "if p_roiPercent L = None then RoiMissing else RoiScored b"])
       (simp_all add: scoreRoi_def Let_def)
next
  case False
  then show ?thesis
    by (intro blockOfI_inactive) (auto simp: scoreRoi_def isPositive_def split: option.splits)
qed

lemma scoreArea_block: "blockOf Area P (scoreArea L P initialLocals)"
proof (cases "isActive Area P")
  case True
  then obtain b where b: "pf_areaSqft P = Some b" "0 < b"
    by (auto simp: isPositive_def split: option.splits)
  show ?thesis
    using True b
    by (intro blockOfI_active [where p = "areaPoints b (p_areaSqft L)"
          and r = "if p_areaSqft L = None then AreaMissing else AreaCloseness b"])
       (simp_all add: scoreArea_def Let_def)
next
  case False
  then show ?thesis
    by (intro blockOfI_inactive) (auto simp: scoreArea_def isPositive_def split: option.splits)
qed

lemma scoreDistance_block: "blockOf Distance P (scoreDistance L P initialLocals)"
proof (cases "isActive Distance P")
  case True
  then obtain b where b: "pf_maxDistanceFromHighway P = Some b" "0 < b"
    by (auto simp: isPositive_def split: option.splits)
  show ?thesis
    using True b
    by (intro blockOfI_active [where p = "distancePoints b (p_distanceFromHighway L)"
          and r = "if p_distanceFromHighway L = None then DistanceMissing else DistanceScored b"])
       (simp_all add: scoreDistance_def Let_def)
next
  case False
  then show ?thesis
    by (intro blockOfI_inactive) (auto simp: scoreDistance_def isPositive_def split: option.splits)
qed

lemma scoreLocation_by_distance:
  "coordinateMode P \<Longrightarrow> hasCoordinates L \<Longrightarrow>
   scoreLocation L P st =
     award WEIGHTS_location
       (LocationScoredByDistance
          (round2 (haversineKm (the (pf_latitude P)) (the (pf_longitude P))
             (the (p_latitude L)) (the (p_longitude L)))) (radiusKmOf P))
       (distancePointsKm L P) st"
  by (simp add: scoreLocation_def coordinateMode_def hasCoordinates_def Let_def distancePointsKm_def)

lemma scoreLocation_fallback:
  "coordinateMode P \<Longrightarrow> \<not> hasCoordinates L \<Longrightarrow>
   scoreLocation L P st =
     award WEIGHTS_location
       (if truthy (pf_location P)
        then (if textMatches L P then FallbackMatched (the (pf_location P))
              else FallbackDidNotMatch (the (pf_location P)))
        else CoordinatesMissing)
       (if textMatches L P then WEIGHTS_location else 0) st"
  by (auto simp add: scoreLocation_def coordinateMode_def hasCoordinates_def Let_def textMatches_def)

lemma scoreLocation_text:
  "\<not> coordinateMode P \<Longrightarrow> truthy (pf_location P) \<Longrightarrow>
   scoreLocation L P st =
     award WEIGHTS_location
       (if textMatches L P then LocationTextMatched (the (pf_location P))
        else LocationTextDidNotMatch (the (pf_location P)))
       (if textMatches L P then WEIGHTS_location else 0) st"
  by (auto simp add: scoreLocation_def coordinateMode_def Let_def textMatches_def)

lemma scoreLocation_skipped:
  "\<not> coordinateMode P \<Longrightarrow> \<not> truthy (pf_location P) \<Longrightarrow> scoreLocation L P st = st"
  by (auto simp add: scoreLocation_def coordinateMode_def)

lemma scoreLocation_block: "blockOf Location P (scoreLocation L P initialLocals)"
proof (cases "coordinateMode P")
  case True
  show ?thesis
  proof (cases "hasCoordinates L")
    case True
    with \<open>coordinateMode P\<close> show ?thesis
      by (intro blockOfI_active [where p = "distancePointsKm L P"]) (simp_all add: scoreLocation_by_distance)
  next
    case False
    with \<open>coordinateMode P\<close> show ?thesis
      by (intro blockOfI_active [where p = "if textMatches L P then WEIGHTS_location else 0"])
         (simp_all add: scoreLocation_fallback)
  qed
next
  case False
  show ?thesis
  proof (cases "truthy (pf_location P)")
    case True
    with False show ?thesis
      by (intro blockOfI_active [where p = "if textMatches L P then WEIGHTS_location else 0"])
         (simp_all add: scoreLocation_text)
  next
    case f: False
    with False show ?thesis
      by (intro blockOfI_inactive) (simp_all add: scoreLocation_skipped)
  qed
qed

lemma blockOf_maxPossible:
  "blockOf c P d \<Longrightarrow> l_maxPossible d = (if isActive c P then weightOf c else 0)"
  by (auto simp: blockOf_def award_def initialLocals_def split: if_splits)

lemma blockOf_entries:
  "blockOf c P d \<Longrightarrow>
   entriesOf c' (l_explanation d) = (if c' = c then l_explanation d else [])"
  by (auto simp: blockOf_def award_def initialLocals_def entriesOf_def split: if_splits)

lemma blockOf_inactive: "blockOf c P d \<Longrightarrow> \<not> isActive c P \<Longrightarrow> d = initialLocals"
  by (auto simp: blockOf_def)

lemmas score_blocks =
  scoreLocation_block scorePrice_block scoreRoi_block scoreArea_block scoreDistance_block

lemma scoreBlocks_activeWeights:
  "l_maxPossible (scoreBlocks L P) = activeWeights [Location, Price, Roi, Area, Distance] P"
  by (simp add: scoreBlocks_maxPossible score_blocks [THEN blockOf_maxPossible] activeWeights_def)

lemma scoreBlocks_entries:
  "entriesOf Location (l_explanation (scoreBlocks L P)) = l_explanation (scoreLocation L P initialLocals)"
  "entriesOf Price (l_explanation (scoreBlocks L P)) = l_explanation (scorePrice L P initialLocals)"
  "entriesOf Roi (l_explanation (scoreBlocks L P)) = l_explanation (scoreRoi L P initialLocals)"
  "entriesOf Area (l_explanation (scoreBlocks L P)) = l_explanation (scoreArea L P initialLocals)"
  "entriesOf Distance (l_explanation (scoreBlocks L P)) = l_explanation (scoreDistance L P initialLocals)"
proof -
  have app: "\<And>c xs ys. entriesOf c (xs @ ys) = entriesOf c xs @ entriesOf c ys"
    by (simp add: entriesOf_def)
  show "entriesOf Location (l_explanation (scoreBlocks L P)) = l_explanation (scoreLocation L P initialLocals)"
    by (simp add: scoreBlocks_explanation app score_blocks [THEN blockOf_entries])
  show "entriesOf Price (l_explanation (scoreBlocks L P)) = l_explanation (scorePrice L P initialLocals)"
    by (simp add: scoreBlocks_explanation app score_blocks [THEN blockOf_entries])
  show "entriesOf Roi (l_explanation (scoreBlocks L P)) = l_explanation (scoreRoi L P initialLocals)"
    by (simp add: scoreBlocks_explanation app score_blocks [THEN blockOf_entries])
  show "entriesOf Area (l_explanation (scoreBlocks L P)) = l_explanation (scoreArea L P initialLocals)"
    by (simp add: scoreBlocks_explanation app score_blocks [THEN blockOf_entries])
  show "entriesOf Distance (l_explanation (scoreBlocks L P)) = l_explanation (scoreDistance L P initialLocals)"
    by (simp add: scoreBlocks_explanation app score_blocks [THEN blockOf_entries])
qed

lemma scoreProperty_fields:
  "score (scoreProperty L P) = round2 (l_score (scoreBlocks L P))"
  "maxPossible (scoreProperty L P) = l_maxPossible (scoreBlocks L P)"
  "explanation (scoreProperty L P) = l_explanation (scoreBlocks L P)"
  "matchPercentage (scoreProperty L P) =
     (if l_maxPossible (scoreBlocks L P) = 0 then 0
      else Math_round ((l_score (scoreBlocks L P) / l_maxPossible (scoreBlocks L P)) * 100))"
  by (simp_all add: scoreProperty_def Let_def)

text \<open>
  Claim C6: when no criterion is active (the coordinates are not both given, the location
  text is absent or empty, and budget, ROI, area and distance preference are each absent
  or not greater than 0), \<^verbatim>\<open>scoreProperty\<close> returns score 0, maxPossible 0,
  matchPercentage 0 and an empty explanation.
\<close>

theorem scoreProperty_no_active_criterion:
  assumes "\<not> coordinateMode P" and "\<not> truthy (pf_location P)"
    and "\<not> isPositive (pf_budget P)" and "\<not> isPositive (pf_roiPercent P)"
    and "\<not> isPositive (pf_areaSqft P)" and "\<not> isPositive (pf_maxDistanceFromHighway P)"
  shows "scoreProperty L P = \<lparr>score = 0, maxPossible = 0, matchPercentage = 0, explanation = []\<rparr>"
proof -
  have "scoreLocation L P initialLocals = initialLocals"
    using assms by (intro blockOf_inactive [OF scoreLocation_block]) simp
  moreover have "scorePrice L P initialLocals = initialLocals"
    using assms by (intro blockOf_inactive [OF scorePrice_block]) simp
  moreover have "scoreRoi L P initialLocals = initialLocals"
    using assms by (intro blockOf_inactive [OF scoreRoi_block]) simp
  moreover have "scoreArea L P initialLocals = initialLocals"
    using assms by (intro blockOf_inactive [OF scoreArea_block]) simp
  moreover have "scoreDistance L P initialLocals = initialLocals"
    using assms by (intro blockOf_inactive [OF scoreDistance_block]) simp
  ultimately have "scoreBlocks L P = initialLocals"
    by (simp add: scoreBlocks_def)
  then show ?thesis
    by (simp add: scoreProperty_def initialLocals_def round2_zero)
qed

section \<open>Scoring: theorems\<close>

lemma criterionPoints_blocks:
  "criterionPoints Location (scoreProperty L P) = map points (l_explanation (scoreLocation L P initialLocals))"
  "criterionPoints Price (scoreProperty L P) = map points (l_explanation (scorePrice L P initialLocals))"
  "criterionPoints Roi (scoreProperty L P) = map points (l_explanation (scoreRoi L P initialLocals))"
  "criterionPoints Area (scoreProperty L P) = map points (l_explanation (scoreArea L P initialLocals))"
  "criterionPoints Distance (scoreProperty L P) = map points (l_explanation (scoreDistance L P initialLocals))"
  by (simp_all add: criterionPoints_def scoreProperty_fields scoreBlocks_entries)

lemma award_initial_points: "map points (l_explanation (award w r p initialLocals)) = [p]"
  by (simp add: award_def initialLocals_def)

lemma price_criterion_points:
  "pf_budget P = Some b \<Longrightarrow> 0 < b \<Longrightarrow>
   criterionPoints Price (scoreProperty L P) = [pricePoints b (p_priceNpr L)]"
  by (simp add: criterionPoints_blocks scorePrice_def Let_def award_initial_points)

lemma roi_criterion_points:
  "pf_roiPercent P = Some b \<Longrightarrow> 0 < b \<Longrightarrow>
   criterionPoints Roi (scoreProperty L P) = [roiPoints b (p_roiPercent L)]"
  by (simp add: criterionPoints_blocks scoreRoi_def Let_def award_initial_points)

lemma area_criterion_points:
  "pf_areaSqft P = Some b \<Longrightarrow> 0 < b \<Longrightarrow>
   criterionPoints Area (scoreProperty L P) = [areaPoints b (p_areaSqft L)]"
  by (simp add: criterionPoints_blocks scoreArea_def Let_def award_initial_points)

lemma distance_criterion_points:
  "pf_maxDistanceFromHighway P = Some b \<Longrightarrow> 0 < b \<Longrightarrow>
   criterionPoints Distance (scoreProperty L P) = [distancePoints b (p_distanceFromHighway L)]"
  by (simp add: criterionPoints_blocks scoreDistance_def Let_def award_initial_points)

lemma isPositiveE: "isPositive v \<Longrightarrow> \<exists>b. v = Some b \<and> 0 < b"
  by (cases v) (simp_all add: isPositive_def)

section \<open>Scoring: absent fields\<close>

theorem scoreProperty_no_active_criterion_witness:
  "scoreProperty sampleListing idlePreferences =
     \<lparr>score = 0, maxPossible = 0, matchPercentage = 0, explanation = []\<rparr>"
  using scoreProperty_no_active_criterion [of idlePreferences sampleListing]
  by (simp add: idlePreferences_def noPreferences_def coordinateMode_def isPositive_def)

lemma fallback_criterion_points:
  "coordinateMode P \<Longrightarrow> \<not> hasCoordinates L \<Longrightarrow>
   criterionPoints Location (scoreProperty L P) = [if textMatches L P then WEIGHTS_location else 0]"
  by (simp add: criterionPoints_blocks scoreLocation_fallback award_initial_points)

lemma fallback_matches: "textMatches sampleListing fallbackPreferences"
  by (simp add: textMatches_def sampleListing_def fallbackPreferences_def noPreferences_def
      str_includes_def toLowerCase_def lowerChar_def sublist_code(1,3))

text \<open>
  Claim C5, as stated: every active criterion awards exactly 0 points when the listing
  lacks the field the criterion evaluates. It fails for the location criterion in
  coordinate mode: the listing below has no coordinates, the preferences have both and
  the text "kathmandu", and the text fallback awards the full 25 points.
\<close>

theorem absent_coordinates_fallback_counterexample:
  "isActive Location fallbackPreferences \<and> p_latitude sampleListing = None \<and>
   p_longitude sampleListing = None \<and>
   criterionPoints Location (scoreProperty sampleListing fallbackPreferences) = [25] \<and>
   criterionPoints Location (scoreProperty sampleListing fallbackPreferences) \<noteq> [0]"
proof -
  have mode: "coordinateMode fallbackPreferences"
    by (simp add: coordinateMode_def fallbackPreferences_def noPreferences_def)
  have none: "\<not> hasCoordinates sampleListing"
    by (simp add: hasCoordinates_def sampleListing_def)
  have "criterionPoints Location (scoreProperty sampleListing fallbackPreferences) = [25]"
    using fallback_criterion_points [OF mode none] fallback_matches
    by (simp add: WEIGHTS_location_def)
  then show ?thesis using mode by (simp add: sampleListing_def)
qed

text \<open>
  Claim C5, amended: an active price, ROI, area or distance criterion awards exactly 0
  points, in exactly one explanation entry, when the listing lacks its field; the
  location criterion in coordinate mode, for a listing that lacks a coordinate, awards in
  exactly one entry 25 points when the preference text is non-empty and contained in the
  listing's location (lower-cased), and 0 points otherwise; and maxPossible is the sum of
  the weights of the active criteria whatever the listing lacks. The function is total:
  no input raises an error.
\<close>

theorem absent_field_awards:
  "(isActive Price P \<and> p_priceNpr L = None \<longrightarrow>
      criterionPoints Price (scoreProperty L P) = [0]) \<and>
   (isActive Roi P \<and> p_roiPercent L = None \<longrightarrow>
      criterionPoints Roi (scoreProperty L P) = [0]) \<and>
   (isActive Area P \<and> p_areaSqft L = None \<longrightarrow>
      criterionPoints Area (scoreProperty L P) = [0]) \<and>
   (isActive Distance P \<and> p_distanceFromHighway L = None \<longrightarrow>
      criterionPoints Distance (scoreProperty L P) = [0]) \<and>
   (coordinateMode P \<and> \<not> hasCoordinates L \<longrightarrow>
      criterionPoints Location (scoreProperty L P) = [if textMatches L P then 25 else 0]) \<and>
   maxPossible (scoreProperty L P) = activeWeights [Location, Price, Roi, Area, Distance] P"
proof -
  have price: "criterionPoints Price (scoreProperty L P) = [0]"
    if a: "isActive Price P" and n: "p_priceNpr L = None"
  proof -
    obtain b where "pf_budget P = Some b" "0 < b"
      using a isPositiveE [of "pf_budget P"] by auto
    then show ?thesis using n by (simp add: price_criterion_points pricePoints_def)
  qed
  have roi: "criterionPoints Roi (scoreProperty L P) = [0]"
    if a: "isActive Roi P" and n: "p_roiPercent L = None"
  proof -
    obtain b where "pf_roiPercent P = Some b" "0 < b"
      using a isPositiveE [of "pf_roiPercent P"] by auto
    then show ?thesis using n by (simp add: roi_criterion_points roiPoints_def)
  qed
  have area: "criterionPoints Area (scoreProperty L P) = [0]"
    if a: "isActive Area P" and n: "p_areaSqft L = None"
  proof -
    obtain b where "pf_areaSqft P = Some b" "0 < b"
      using a isPositiveE [of "pf_areaSqft P"] by auto
    then show ?thesis using n by (simp add: area_criterion_points areaPoints_def)
  qed
  have dist: "criterionPoints Distance (scoreProperty L P) = [0]"
    if a: "isActive Distance P" and n: "p_distanceFromHighway L = None"
  proof -
    obtain b where "pf_maxDistanceFromHighway P = Some b" "0 < b"
      using a isPositiveE [of "pf_maxDistanceFromHighway P"] by auto
    then show ?thesis using n by (simp add: distance_criterion_points distancePoints_def)
  qed
  have loc: "criterionPoints Location (scoreProperty L P) = [if textMatches L P then 25 else 0]"
    if "coordinateMode P" "\<not> hasCoordinates L"
    using fallback_criterion_points [OF that] by (simp add: WEIGHTS_location_def)
  have mx: "maxPossible (scoreProperty L P) = activeWeights [Location, Price, Roi, Area, Distance] P"
    by (simp add: scoreProperty_fields scoreBlocks_activeWeights)
  show ?thesis using price roi area dist loc mx by blast
qed

theorem absent_field_awards_witness:
  "criterionPoints Price (scoreProperty bareListing allPreferences) = [0] \<and>
   criterionPoints Roi (scoreProperty bareListing allPreferences) = [0] \<and>
   criterionPoints Area (scoreProperty bareListing allPreferences) = [0] \<and>
   criterionPoints Distance (scoreProperty bareListing allPreferences) = [0] \<and>
   criterionPoints Location (scoreProperty bareListing allPreferences) = [0] \<and>
   maxPossible (scoreProperty bareListing allPreferences) = 100"
proof -
  have act: "isActive Price allPreferences" "isActive Roi allPreferences"
    "isActive Area allPreferences" "isActive Distance allPreferences"
    "coordinateMode allPreferences"
    by (simp_all add: allPreferences_def isPositive_def coordinateMode_def)
  have missing: "p_priceNpr bareListing = None" "p_roiPercent bareListing = None"
    "p_areaSqft bareListing = None" "p_distanceFromHighway bareListing = None"
    "\<not> hasCoordinates bareListing"
    by (simp_all add: bareListing_def sampleListing_def hasCoordinates_def)
  have nomatch: "\<not> textMatches bareListing allPreferences"
    by (simp add: textMatches_def allPreferences_def)
  have w: "activeWeights [Location, Price, Roi, Area, Distance] allPreferences = 100"
    using act
    by (simp add: activeWeights_def WEIGHTS_location_def WEIGHTS_price_def WEIGHTS_roi_def
        WEIGHTS_area_def WEIGHTS_distance_def)
  show ?thesis
    using absent_field_awards [of allPreferences bareListing] act missing nomatch w by simp
qed

section \<open>Scoring over the arithmetic of the runtime: theorems\<close>

lemma accounted_initial: "accounted ar (initialLocalsN ar)"
  by (simp add: accounted_def initialLocalsN_def sumPoints_def)

lemma accounted_award: "accounted ar st \<Longrightarrow> accounted ar (awardN ar w r p st)"
  by (simp add: accounted_def awardN_def sumPoints_def)

lemma accounted_scoreLocationN: "accounted ar st \<Longrightarrow> accounted ar (scoreLocationN ar L P st)"
  by (simp add: scoreLocationN_def Let_def accounted_award)

lemma accounted_scorePriceN: "accounted ar st \<Longrightarrow> accounted ar (scorePriceN ar L P st)"
  by (simp add: scorePriceN_def Let_def accounted_award)

lemma accounted_scoreRoiN: "accounted ar st \<Longrightarrow> accounted ar (scoreRoiN ar L P st)"
  by (simp add: scoreRoiN_def Let_def accounted_award)

lemma accounted_scoreAreaN: "accounted ar st \<Longrightarrow> accounted ar (scoreAreaN ar L P st)"
  by (simp add: scoreAreaN_def Let_def accounted_award)

lemma accounted_scoreDistanceN: "accounted ar st \<Longrightarrow> accounted ar (scoreDistanceN ar L P st)"
  by (simp add: scoreDistanceN_def Let_def accounted_award)

lemma accounted_scoreBlocksN: "accounted ar (scoreBlocksN ar L P)"
  unfolding scoreBlocksN_def
  by (intro accounted_scoreDistanceN accounted_scoreAreaN accounted_scoreRoiN
      accounted_scorePriceN accounted_scoreLocationN accounted_initial)

text \<open>
  Claim C9: the score of the result of \<^verbatim>\<open>scoreProperty\<close> is the sum of the points of
  its explanation entries (added from 0, in the order of the entries) rounded to two
  decimals, that is, multiplied by 100, rounded by \<^verbatim>\<open>Math.round\<close> and divided by 100, in
  whatever arithmetic the runtime has.
\<close>

theorem score_accounts_for_points:
  "scoreN (scorePropertyN ar L P) =
     js_div ar
       (js_round ar
          (js_mul ar
             (foldl (js_add ar) (js_lit ar 0) (map pointsN (explanationN (scorePropertyN ar L P))))
             (js_lit ar 100)))
       (js_lit ar 100)"
proof -
  have "vn_score (scoreBlocksN ar L P) =
          foldl (js_add ar) (js_lit ar 0) (map pointsN (vn_explanation (scoreBlocksN ar L P)))"
    using accounted_scoreBlocksN [of ar L P] by (simp add: accounted_def sumPoints_def)
  then show ?thesis
    by (simp add: scorePropertyN_def Let_def round2N_def)
qed

lemma seven_points:
  "map pointsN (explanationN (scorePropertyN exactArithmetic sixListing sevenPreferences)) =
     [2571 / 100, 1286 / 100]"
  by (simp add: scorePropertyN_def scoreBlocksN_def scoreLocationN_def scorePriceN_def
      scoreRoiN_def scoreAreaN_def scoreDistanceN_def awardN_def initialLocalsN_def Let_def
      positiveN_def safeRatioScoreN_def round2N_def exactArithmetic_def sixListing_def
      sevenPreferences_def Math_round_def)

theorem score_accounts_for_points_witness:
  "map pointsN (explanationN (scorePropertyN exactArithmetic sixListing sevenPreferences)) =
     [2571 / 100, 1286 / 100] \<and>
   scoreN (scorePropertyN exactArithmetic sixListing sevenPreferences) = 3857 / 100"
proof -
  have "scoreN (scorePropertyN exactArithmetic sixListing sevenPreferences) = 3857 / 100"
    using score_accounts_for_points [of exactArithmetic sixListing sevenPreferences]
    by (simp add: seven_points) (simp add: exactArithmetic_def Math_round_def)
  then show ?thesis by (simp add: seven_points)
qed

lemma infinite_budget_result:
  "scorePropertyN extendedArithmetic (pricedListing price) infiniteBudget =
     \<lparr>scoreN = NaN, maxPossibleN = Fin 30, matchPercentageN = NaN,
      explanationN = [\<lparr>reasonN = BudgetClosenessN PosInf, pointsN = NaN\<rparr>]\<rparr>"
  by (simp add: scorePropertyN_def scoreBlocksN_def scoreLocationN_def scorePriceN_def
      scoreRoiN_def scoreAreaN_def scoreDistanceN_def awardN_def initialLocalsN_def Let_def
      positiveN_def safeRatioScoreN_def round2N_def extendedArithmetic_def pricedListing_def
      infiniteBudget_def num_sub_def num_gt_def num_eq_def num_max_def)

text \<open>
  Claim C3 states \<open>0 \<le> score \<le> maxPossible\<close> and \<open>0 \<le> matchPercentage \<le> 100\<close> for every
  listing and every preferences value. Evaluated at a listing with price 5 and preferences
  whose budget is Infinity (a number \<^verbatim>\<open>parseNumber\<close> lets through): the ratio
  \<open>|5 - \<infinity>| / \<infinity>\<close> is NaN, so score and matchPercentage are NaN while maxPossible is 30, and
  the comparisons \<open>0 \<le> score\<close> and \<open>matchPercentage \<le> 100\<close> are false.
\<close>

theorem infinite_budget_score_unbounded:
  "scoreN (scorePropertyN extendedArithmetic (pricedListing 5) infiniteBudget) = NaN \<and>
   matchPercentageN (scorePropertyN extendedArithmetic (pricedListing 5) infiniteBudget) = NaN \<and>
   maxPossibleN (scorePropertyN extendedArithmetic (pricedListing 5) infiniteBudget) = Fin 30 \<and>
   js_le extendedArithmetic (js_lit extendedArithmetic 0)
     (scoreN (scorePropertyN extendedArithmetic (pricedListing 5) infiniteBudget)) = False \<and>
   js_le extendedArithmetic
     (matchPercentageN (scorePropertyN extendedArithmetic (pricedListing 5) infiniteBudget))
     (js_lit extendedArithmetic 100) = False"
  by (simp add: infinite_budget_result) (simp add: extendedArithmetic_def)

text \<open>
  Claim C7 states that a listing whose price is at least as close to the budget gets at
  least as many price points. Evaluated at the budget Infinity with the prices 5 and 6:
  the two distances \<open>|5 - \<infinity>|\<close> and \<open>|6 - \<infinity>|\<close> compare as \<open>\<le>\<close>, both listings get NaN price
  points, and \<open>NaN \<ge> NaN\<close> is false.
\<close>

theorem infinite_budget_price_points_incomparable:
  "js_le extendedArithmetic
     (js_abs extendedArithmetic (js_sub extendedArithmetic (Fin 5) PosInf))
     (js_abs extendedArithmetic (js_sub extendedArithmetic (Fin 6) PosInf)) \<and>
   map pointsN (explanationN (scorePropertyN extendedArithmetic (pricedListing 5) infiniteBudget)) =
     [NaN] \<and>
   map pointsN (explanationN (scorePropertyN extendedArithmetic (pricedListing 6) infiniteBudget)) =
     [NaN] \<and>
   js_ge extendedArithmetic NaN NaN = False"
  by (simp add: infinite_budget_result) (simp add: extendedArithmetic_def num_sub_def)

section \<open>The controller: theorems\<close>


lemma getRecommendations_invalid:
  "invalidPriceRange (sanitizeMustHave (rq_mustHave source)) \<Longrightarrow>
   getRecommendations geocodeLocation findAll source =
     (if needsGeocoding (sanitizePreferences (rq_preferences source))
      then [GeocodeLocation (the (pf_location (sanitizePreferences (rq_preferences source))))]
      else [],
      400, Message validationMessage)"
  by (simp add: getRecommendations_def Let_def validationMessage_def)



lemma length_insertRanked: "length (insertRanked x xs) = Suc (length xs)"
  by (induction xs) simp_all

lemma length_sortRanked: "length (sortRanked xs) = length xs"
  by (induction xs) (simp_all add: length_insertRanked)

lemma Math_trunc_ge_one: "1 \<le> max 1 (Math_trunc x)"
  by simp

lemma getRecommendations_ok:
  assumes "getRecommendations geocodeLocation findAll source = (calls, status, Recommendations data pg)"
  shows "\<exists>candidates page limit.
           findAll (buildWhere (sanitizeMustHave (rq_mustHave source))) = Inr candidates \<and>
           1 \<le> page \<and>
           pg = paginationOf page limit
                  (real (length (applyHardFilters candidates (sanitizeMustHave (rq_mustHave source)))))"
proof (cases "invalidPriceRange (sanitizeMustHave (rq_mustHave source))")
  case True
  then show ?thesis using assms by (simp add: getRecommendations_invalid)
next
  case False
  show ?thesis
  proof (cases "findAll (buildWhere (sanitizeMustHave (rq_mustHave source)))")
    case (Inl err)
    then show ?thesis using assms False by (simp add: getRecommendations_def Let_def)
  next
    case (Inr candidates)
    have "pg = paginationOf (max 1 (Math_trunc (orNumber (rq_page source) 1)))
                 (min 50 (max 1 (Math_trunc (orNumber (rq_limit source) 20))))
                 (real (length (applyHardFilters candidates (sanitizeMustHave (rq_mustHave source)))))"
      using assms False Inr
      by (simp add: getRecommendations_def Let_def length_sortRanked)
    then show ?thesis using Inr Math_trunc_ge_one by blast
  qed
qed

lemma paginationOf_fields:
  "pg_totalPages (paginationOf page limit n) = max 1 (Math_ceil (n / limit))"
  "pg_total (paginationOf page limit n) = n"
  "pg_limit (paginationOf page limit n) = limit"
  "pg_page (paginationOf page limit n) = page"
  "pg_hasNext (paginationOf page limit n) = (page < max 1 (Math_ceil (n / limit)))"
  "pg_hasPrev (paginationOf page limit n) = (1 < page)"
  by (simp_all add: paginationOf_def Let_def)

lemma thirdPage_response:
  "getRecommendations noGeocoder emptyCatalog thirdPageRequest =
     ([PropertyFindAll (buildWhere noMustHave)], 200, Recommendations [] emptyThirdPage)"
  by (simp add: getRecommendations_def Let_def thirdPageRequest_def sanitizeMustHave_def
      sanitizePreferences_def needsGeocoding_def noPreferences_def invalidPriceRange_def
      noMustHave_def emptyCatalog_def applyHardFilters_def orNumber_def Math_trunc_def
      Math_ceil_def paginationOf_def slice_def emptyThirdPage_def)

lemma getRecommendations_valid:
  assumes "\<not> invalidPriceRange (sanitizeMustHave (rq_mustHave source))"
    and "findAll (buildWhere (sanitizeMustHave (rq_mustHave source))) = Inr candidates"
  shows "\<exists>calls data.
           getRecommendations geocodeLocation findAll source =
             (calls, 200,
              Recommendations data
                (paginationOf (max 1 (Math_trunc (orNumber (rq_page source) 1)))
                   (min 50 (max 1 (Math_trunc (orNumber (rq_limit source) 20))))
                   (real (length (applyHardFilters candidates
                      (sanitizeMustHave (rq_mustHave source)))))))"
  using assms by (simp add: getRecommendations_def Let_def length_sortRanked)

lemma noMustHave_keeps_all: "applyHardFilters xs noMustHave = xs"
proof -
  have "hardFilterCallback noMustHave L" for L
    by (simp add: hardFilterCallback_def noMustHave_def rejectsLocation_def
        rejectsCategoryId_def rejectsStatus_def rejectsMinPrice_def rejectsMaxPrice_def
        rejectsMinRoi_def rejectsMinArea_def rejectsMaxDistance_def)
  then show ?thesis by (simp add: applyHardFilters_def)
qed

lemma secondPage_response:
  "\<exists>calls data.
     getRecommendations noGeocoder fiveListingCatalog secondPageRequest =
       (calls, 200, Recommendations data secondOfThreePages)"
proof -
  have valid: "\<not> invalidPriceRange (sanitizeMustHave (rq_mustHave secondPageRequest))"
    by (simp add: secondPageRequest_def sanitizeMustHave_def invalidPriceRange_def noMustHave_def)
  have found: "fiveListingCatalog (buildWhere (sanitizeMustHave (rq_mustHave secondPageRequest))) =
      Inr fiveListings"
    by (simp add: fiveListingCatalog_def)
  have pg: "paginationOf (max 1 (Math_trunc (orNumber (rq_page secondPageRequest) 1)))
              (min 50 (max 1 (Math_trunc (orNumber (rq_limit secondPageRequest) 20))))
              (real (length (applyHardFilters fiveListings
                 (sanitizeMustHave (rq_mustHave secondPageRequest))))) = secondOfThreePages"
    by (simp add: secondPageRequest_def sanitizeMustHave_def noMustHave_keeps_all
        fiveListings_def orNumber_def Math_trunc_def paginationOf_def Math_ceil_def
        secondOfThreePages_def)
  show ?thesis
    using getRecommendations_valid [of secondPageRequest fiveListingCatalog fiveListings noGeocoder]
      valid found
    by (simp add: pg)
qed

text \<open>
  Claim C10: in the pagination of a 200 response, totalPages is the greater of 1 and the
  least integer not below total / limit, hence at least 1; hasNext holds iff page is less
  than totalPages; hasPrev holds iff page is greater than 1; total is the number of
  listings that survive the hard filters; and an empty result has totalPages 1 and no
  next page.
\<close>

theorem pagination_metadata:
  assumes "getRecommendations geocodeLocation findAll source = (calls, status, Recommendations data pg)"
  shows "pg_totalPages pg = max 1 (of_int \<lceil>pg_total pg / pg_limit pg\<rceil>) \<and>
         1 \<le> pg_totalPages pg \<and>
         pg_hasNext pg = (pg_page pg < pg_totalPages pg) \<and>
         pg_hasPrev pg = (1 < pg_page pg) \<and>
         (\<exists>candidates.
            findAll (buildWhere (sanitizeMustHave (rq_mustHave source))) = Inr candidates \<and>
            pg_total pg =
              real (length (applyHardFilters candidates (sanitizeMustHave (rq_mustHave source))))) \<and>
         (pg_total pg = 0 \<longrightarrow> pg_totalPages pg = 1 \<and> \<not> pg_hasNext pg)"
proof -
  obtain candidates page limit where
    c: "findAll (buildWhere (sanitizeMustHave (rq_mustHave source))) = Inr candidates"
    and p: "1 \<le> page"
    and pg: "pg = paginationOf page limit
               (real (length (applyHardFilters candidates (sanitizeMustHave (rq_mustHave source)))))"
    using getRecommendations_ok [OF assms] by blast
  have empty: "pg_totalPages pg = 1 \<and> \<not> pg_hasNext pg" if "pg_total pg = 0"
    using that p unfolding pg by (simp add: paginationOf_fields Math_ceil_def)
  have "\<exists>candidates.
          findAll (buildWhere (sanitizeMustHave (rq_mustHave source))) = Inr candidates \<and>
          pg_total pg =
            real (length (applyHardFilters candidates (sanitizeMustHave (rq_mustHave source))))"
    using c unfolding pg by (simp add: paginationOf_fields)
  moreover have "pg_totalPages pg = max 1 (of_int \<lceil>pg_total pg / pg_limit pg\<rceil>)"
    "1 \<le> pg_totalPages pg" "pg_hasNext pg = (pg_page pg < pg_totalPages pg)"
    "pg_hasPrev pg = (1 < pg_page pg)"
    unfolding pg by (simp_all add: paginationOf_fields Math_ceil_def)
  ultimately show ?thesis using empty by blast
qed

theorem pagination_metadata_witness:
  "(\<exists>calls data.
      getRecommendations noGeocoder fiveListingCatalog secondPageRequest =
        (calls, 200, Recommendations data secondOfThreePages)) \<and>
   pg_total secondOfThreePages = 5 \<and> pg_limit secondOfThreePages = 2 \<and>
   pg_totalPages secondOfThreePages = 3 \<and>
   pg_hasNext secondOfThreePages = (pg_page secondOfThreePages < 3) \<and>
   pg_hasPrev secondOfThreePages = (1 < pg_page secondOfThreePages) \<and>
   getRecommendations noGeocoder emptyCatalog thirdPageRequest =
     ([PropertyFindAll (buildWhere noMustHave)], 200, Recommendations [] emptyThirdPage) \<and>
   pg_total emptyThirdPage = 0 \<and> pg_totalPages emptyThirdPage = 1 \<and>
   pg_hasNext emptyThirdPage = False"
proof -
  obtain calls data where r:
    "getRecommendations noGeocoder fiveListingCatalog secondPageRequest =
       (calls, 200, Recommendations data secondOfThreePages)"
    using secondPage_response by blast
  have five: "pg_total secondOfThreePages = 5" "pg_limit secondOfThreePages = 2"
    by (simp_all add: secondOfThreePages_def)
  have "pg_totalPages secondOfThreePages =
          max 1 (of_int \<lceil>pg_total secondOfThreePages / pg_limit secondOfThreePages\<rceil>) \<and>
        pg_hasNext secondOfThreePages =
          (pg_page secondOfThreePages < pg_totalPages secondOfThreePages) \<and>
        pg_hasPrev secondOfThreePages = (1 < pg_page secondOfThreePages)"
    using pagination_metadata [OF r] by blast
  moreover have "\<lceil>(5::real) / 2\<rceil> = 3" by (simp add: ceiling_eq_iff)
  ultimately have second:
    "pg_totalPages secondOfThreePages = 3"
    "pg_hasNext secondOfThreePages = (pg_page secondOfThreePages < 3)"
    "pg_hasPrev secondOfThreePages = (1 < pg_page secondOfThreePages)"
    by (simp_all add: five)
  have zero: "pg_total emptyThirdPage = 0" by (simp add: emptyThirdPage_def)
  have "pg_total emptyThirdPage = 0 \<longrightarrow>
          pg_totalPages emptyThirdPage = 1 \<and> \<not> pg_hasNext emptyThirdPage"
    using pagination_metadata [OF thirdPage_response] by blast
  with zero have third: "pg_totalPages emptyThirdPage = 1" "pg_hasNext emptyThirdPage = False"
    by simp_all
  show ?thesis using r five second zero third thirdPage_response by blast
qed

end
